theory Spec2Isabelle
  imports Main "HOL-Library.Word" "HOL-Library.Sublist"
begin

unbundle bit_operations_syntax

section \<open>The dmsql dialect of gorm (dialect\_dmsql.go)\<close>

text \<open>
  The file under verification is one dialect adapter of the gorm library. Its methods are
  string-formatting rules over a handful of helpers of the host library
  (\<^verbatim>\<open>ParseFieldStructForDialect\<close>, \<^verbatim>\<open>fieldCanAutoIncrement\<close>, \<^verbatim>\<open>parseInt\<close>,
  \<^verbatim>\<open>commonDialect.BuildKeyName\<close>, \<^verbatim>\<open>keyNameRegex\<close>, \<^verbatim>\<open>currentDatabaseAndTable\<close>, the
  database handle). Those helpers live in other files of the library; here each of them is
  an explicit parameter of the method that calls it, so that every theorem holds for
  whatever the helper computes, and an assumption about a helper is a visible hypothesis.

  Go strings are byte sequences: a \<^typ>\<open>string\<close> (a list of 8-bit \<^typ>\<open>char\<close>) is exactly that.
\<close>

subsection \<open>Formatting verbs of \<^verbatim>\<open>fmt.Sprintf\<close>\<close>

text \<open>\<^verbatim>\<open>%d\<close>: the decimal digits of an integer, with a minus sign when it is negative.\<close>

fun natToDec :: "nat \<Rightarrow> string" where
  "natToDec n = (if n < 10 then [''0123456789'' ! n]
                 else natToDec (n div 10) @ [''0123456789'' ! (n mod 10)])"

declare natToDec.simps [simp del]

definition formatInt :: "int \<Rightarrow> string" where
  "formatInt i = (if i < 0 then CHR ''-'' # natToDec (nat (- i)) else natToDec (nat i))"

subsection \<open>UTF-8: runes of a string\<close>

text \<open>
  The Go runtime and the packages \<^verbatim>\<open>unicode/utf8\<close>, \<^verbatim>\<open>unicode\<close> and \<^verbatim>\<open>strings\<close> read a string
  as a sequence of runes (code points). \<open>DecodeRuneInString\<close> returns the first rune of a
  string and its width in bytes; a byte that starts no well-formed encoding (an overlong form,
  a surrogate, a value above \<open>0x10FFFF\<close>, a truncated sequence) is the rune \<open>RuneError\<close> of
  width 1. The second byte's accepted range depends on the first byte, as in the package's
  \<^verbatim>\<open>acceptRanges\<close> table.
\<close>

definition RuneError :: nat where
  "RuneError = 0xFFFD"

definition inRange :: "nat \<Rightarrow> nat \<Rightarrow> string \<Rightarrow> nat \<Rightarrow> bool" where
  "inRange lo hi s i = (i < length s \<and> lo \<le> of_char (s ! i) \<and> of_char (s ! i) \<le> hi)"

definition DecodeRuneInString :: "string \<Rightarrow> nat \<times> nat" where
  "DecodeRuneInString s =
     (case s of
        [] \<Rightarrow> (RuneError, 0)
      | c # _ \<Rightarrow>
          (let p0 = (of_char c :: nat) in
           if p0 < 0x80 then (p0, 1)
           else if p0 < 0xC2 \<or> 0xF4 < p0 then (RuneError, 1)
           else if p0 < 0xE0 then
             (if inRange 0x80 0xBF s 1
              then ((p0 mod 0x20) * 0x40 + of_char (s ! 1) mod 0x40, 2)
              else (RuneError, 1))
           else if p0 < 0xF0 then
             (if inRange (if p0 = 0xE0 then 0xA0 else 0x80) (if p0 = 0xED then 0x9F else 0xBF) s 1
                 \<and> inRange 0x80 0xBF s 2
              then ((p0 mod 0x10) * 0x1000 + (of_char (s ! 1) mod 0x40) * 0x40
                      + of_char (s ! 2) mod 0x40, 3)
              else (RuneError, 1))
           else
             (if inRange (if p0 = 0xF0 then 0x90 else 0x80) (if p0 = 0xF4 then 0x8F else 0xBF) s 1
                 \<and> inRange 0x80 0xBF s 2 \<and> inRange 0x80 0xBF s 3
              then ((p0 mod 0x08) * 0x40000 + (of_char (s ! 1) mod 0x40) * 0x1000
                      + (of_char (s ! 2) mod 0x40) * 0x40 + of_char (s ! 3) mod 0x40, 4)
              else (RuneError, 1))))"

lemma DecodeRune_width_pos: "s \<noteq> [] \<Longrightarrow> 0 < snd (DecodeRuneInString s)"
  by (auto simp: DecodeRuneInString_def Let_def split: list.splits)

text \<open>The conversion \<^verbatim>\<open>[]rune(s)\<close>: decode rune after rune until the string is used up.\<close>

function stringToRunes :: "string \<Rightarrow> nat list" where
  "stringToRunes s =
     (if s = [] then []
      else fst (DecodeRuneInString s) # stringToRunes (drop (snd (DecodeRuneInString s)) s))"
  by pat_completeness auto
termination
  by (relation "measure length") (auto simp: DecodeRune_width_pos)

declare stringToRunes.simps [simp del]

text \<open>\<^verbatim>\<open>utf8.RuneCountInString\<close>: the number of runes, an ill-formed byte counting as one.\<close>

definition RuneCountInString :: "string \<Rightarrow> nat" where
  "RuneCountInString s = length (stringToRunes s)"

text \<open>
  The conversion \<^verbatim>\<open>string(runes)\<close> writes each rune in UTF-8; a surrogate or a value above
  \<open>0x10FFFF\<close> is written as \<open>RuneError\<close> (the bytes EF BF BD).
\<close>

definition encodeRune :: "nat \<Rightarrow> string" where
  "encodeRune r =
     (if r \<le> 0x7F then [char_of r]
      else if r \<le> 0x7FF then [char_of (0xC0 + r div 0x40), char_of (0x80 + r mod 0x40)]
      else if 0x10FFFF < r \<or> (0xD800 \<le> r \<and> r \<le> 0xDFFF) then
        [char_of (0xEF :: nat), char_of (0xBF :: nat), char_of (0xBD :: nat)]
      else if r \<le> 0xFFFF then
        [char_of (0xE0 + r div 0x1000), char_of (0x80 + (r div 0x40) mod 0x40),
         char_of (0x80 + r mod 0x40)]
      else
        [char_of (0xF0 + r div 0x40000), char_of (0x80 + (r div 0x1000) mod 0x40),
         char_of (0x80 + (r div 0x40) mod 0x40), char_of (0x80 + r mod 0x40)])"

definition runesToString :: "nat list \<Rightarrow> string" where
  "runesToString rs = concat (map encodeRune rs)"

text \<open>
  \<^verbatim>\<open>unicode.IsSpace\<close>: in Latin-1 the characters tab, newline, vertical tab, form feed,
  carriage return, space, U+0085 and U+00A0; above it the White\_Space property.
\<close>

definition IsSpace :: "nat \<Rightarrow> bool" where
  "IsSpace r =
     (if r \<le> 0xFF then r \<in> {0x09, 0x0A, 0x0B, 0x0C, 0x0D, 0x20, 0x85, 0xA0}
      else r = 0x1680 \<or> (0x2000 \<le> r \<and> r \<le> 0x200A) \<or> r = 0x2028 \<or> r = 0x2029
           \<or> r = 0x202F \<or> r = 0x205F \<or> r = 0x3000)"

text \<open>
  \<^verbatim>\<open>strings.TrimSpace(s) == ""\<close>: trimming the white space at both ends leaves nothing exactly
  when every rune of \<open>s\<close> is white space.
\<close>

definition TrimSpaceIsEmpty :: "string \<Rightarrow> bool" where
  "TrimSpaceIsEmpty s = list_all IsSpace (stringToRunes s)"

subsection \<open>The data of a field\<close>

text \<open>
  \<^verbatim>\<open>reflect.Kind\<close> and its \<^verbatim>\<open>String\<close> method, for the kinds that a valid value can have
  (\<^verbatim>\<open>reflect.Invalid\<close> is the kind of the zero \<^verbatim>\<open>Value\<close> alone, and the value of a struct field
  is never that). The kind \<^verbatim>\<open>reflect.Int\<close> is \<open>IntKind\<close> here: \<open>Int\<close> is HOL's notation for set
  intersection.
\<close>

datatype Kind =
    Bool | IntKind | Int8 | Int16 | Int32 | Int64
  | Uint | Uint8 | Uint16 | Uint32 | Uint64 | Uintptr
  | Float32 | Float64 | Complex64 | Complex128
  | Array | Chan | Func | Interface | Map | Ptr | Slice | String | Struct | UnsafePointer

fun KindString :: "Kind \<Rightarrow> string" where
  "KindString Bool = ''bool''"
| "KindString IntKind = ''int''"
| "KindString Int8 = ''int8''"
| "KindString Int16 = ''int16''"
| "KindString Int32 = ''int32''"
| "KindString Int64 = ''int64''"
| "KindString Uint = ''uint''"
| "KindString Uint8 = ''uint8''"
| "KindString Uint16 = ''uint16''"
| "KindString Uint32 = ''uint32''"
| "KindString Uint64 = ''uint64''"
| "KindString Uintptr = ''uintptr''"
| "KindString Float32 = ''float32''"
| "KindString Float64 = ''float64''"
| "KindString Complex64 = ''complex64''"
| "KindString Complex128 = ''complex128''"
| "KindString Array = ''array''"
| "KindString Chan = ''chan''"
| "KindString Func = ''func''"
| "KindString Interface = ''interface''"
| "KindString Map = ''map''"
| "KindString Ptr = ''ptr''"
| "KindString Slice = ''slice''"
| "KindString String = ''string''"
| "KindString Struct = ''struct''"
| "KindString UnsafePointer = ''unsafe.Pointer''"

text \<open>
  The \<^verbatim>\<open>reflect.Value\<close> that \<^verbatim>\<open>ParseFieldStructForDialect\<close> returns, as far as \<^verbatim>\<open>DataTypeOf\<close>
  looks at it: \<^verbatim>\<open>Kind()\<close>, \<^verbatim>\<open>Type().Name()\<close>, whether the value is a \<^verbatim>\<open>time.Time\<close> (the type
  assertion on \<^verbatim>\<open>Interface()\<close>), what the library's \<^verbatim>\<open>IsByteArrayOrSlice\<close> answers for it, and
  \<^verbatim>\<open>CanInterface()\<close>: whether \<^verbatim>\<open>Interface()\<close> returns the value, or panics because the value
  was reached through an unexported struct field.
\<close>

record Value =
  Kind :: Kind
  TypeName :: string
  IsTime :: bool
  IsByteArrayOrSlice :: bool
  CanInterface :: bool

text \<open>
  \<^verbatim>\<open>StructField\<close>: the fields that \<^verbatim>\<open>DataTypeOf\<close> uses. The library's other fields are the
  extension part of the record, so a statement about an \<open>'a StructField_scheme\<close> covers them.
\<close>

record StructField =
  Name :: string
  IsPrimaryKey :: bool
  TagSettings :: "string \<rightharpoonup> string"

text \<open>
  Modelled from the spec: the accessors \<^verbatim>\<open>TagSettingsGet\<close>, \<^verbatim>\<open>TagSettingsSet\<close> and
  \<^verbatim>\<open>TagSettingsDelete\<close> of \<^verbatim>\<open>StructField\<close> are declared outside this file. The spec's data
  model has the tag settings as a mapping from setting names to string values that the adapter
  reads, adds to and removes from; the source reads the same map directly
  (\<^verbatim>\<open>field.TagSettings["NOT NULL"]\<close>). The map is taken to be allocated: writing to a \<^verbatim>\<open>nil\<close>
  map is not modelled.
\<close>

definition TagSettingsGet :: "'a StructField_scheme \<Rightarrow> string \<Rightarrow> string option" where
  "TagSettingsGet field key = TagSettings field key"

definition TagSettingsSet :: "'a StructField_scheme \<Rightarrow> string \<Rightarrow> string \<Rightarrow> 'a StructField_scheme" where
  "TagSettingsSet field key val = field\<lparr>TagSettings := (TagSettings field)(key \<mapsto> val)\<rparr>"

definition TagSettingsDelete :: "'a StructField_scheme \<Rightarrow> string \<Rightarrow> 'a StructField_scheme" where
  "TagSettingsDelete field key = field\<lparr>TagSettings := (TagSettings field)(key := None)\<rparr>"

text \<open>A panic: a call of \<^verbatim>\<open>panic\<close> with a message, or the runtime's index-out-of-range error.\<close>

datatype panic = Panic string | IndexOutOfRange nat nat

subsection \<open>Type inference: \<^verbatim>\<open>DataTypeOf\<close>\<close>

text \<open>
  The \<^verbatim>\<open>switch dataValue.Kind()\<close> of \<^verbatim>\<open>DataTypeOf\<close>, one equation per kind in the order of
  the source; the last equation is the \<^verbatim>\<open>default\<close> branch. The result is the inferred
  \<^verbatim>\<open>sqlType\<close> (\<open>Inr\<close>, empty when no branch assigns it) or the panic that the branch raises
  (\<open>Inl\<close>), and the field as the branch leaves it. Only the \<^verbatim>\<open>Struct\<close> branch can panic: its
  \<^verbatim>\<open>dataValue.Interface()\<close> is called without a check, and \<^verbatim>\<open>reflect\<close> panics there for a value
  that \<^verbatim>\<open>CanInterface\<close> denies. \<open>fieldCanAutoIncrement\<close> is the base dialect's eligibility rule,
  a parameter.
\<close>

fun inferSqlType ::
  "('a StructField_scheme \<Rightarrow> bool) \<Rightarrow> Value \<Rightarrow> int \<Rightarrow> 'a StructField_scheme \<Rightarrow> Kind
     \<Rightarrow> (panic + string) \<times> 'a StructField_scheme" where
  "inferSqlType fieldCanAutoIncrement dataValue sz field Bool = (Inr ''bit'', field)"
| "inferSqlType fieldCanAutoIncrement dataValue sz field Int8 =
     (if fieldCanAutoIncrement field
      then (Inr ''tinyint AUTO_INCREMENT'',
            TagSettingsSet field ''AUTO_INCREMENT'' ''AUTO_INCREMENT'')
      else (Inr ''tinyint'', field))"
| "inferSqlType fieldCanAutoIncrement dataValue sz field IntKind =
     (if fieldCanAutoIncrement field
      then (Inr ''int AUTO_INCREMENT'', TagSettingsSet field ''AUTO_INCREMENT'' ''AUTO_INCREMENT'')
      else (Inr ''int'', field))"
| "inferSqlType fieldCanAutoIncrement dataValue sz field Int16 =
     (if fieldCanAutoIncrement field
      then (Inr ''int AUTO_INCREMENT'', TagSettingsSet field ''AUTO_INCREMENT'' ''AUTO_INCREMENT'')
      else (Inr ''int'', field))"
| "inferSqlType fieldCanAutoIncrement dataValue sz field Int32 =
     (if fieldCanAutoIncrement field
      then (Inr ''int AUTO_INCREMENT'', TagSettingsSet field ''AUTO_INCREMENT'' ''AUTO_INCREMENT'')
      else (Inr ''int'', field))"
| "inferSqlType fieldCanAutoIncrement dataValue sz field Uint8 =
     (if fieldCanAutoIncrement field
      then (Inr ''tinyint unsigned AUTO_INCREMENT'',
            TagSettingsSet field ''AUTO_INCREMENT'' ''AUTO_INCREMENT'')
      else (Inr ''tinyint unsigned'', field))"
| "inferSqlType fieldCanAutoIncrement dataValue sz field Uint =
     (if fieldCanAutoIncrement field
      then (Inr ''int unsigned AUTO_INCREMENT'',
            TagSettingsSet field ''AUTO_INCREMENT'' ''AUTO_INCREMENT'')
      else (Inr ''int unsigned'', field))"
| "inferSqlType fieldCanAutoIncrement dataValue sz field Uint16 =
     (if fieldCanAutoIncrement field
      then (Inr ''int unsigned AUTO_INCREMENT'',
            TagSettingsSet field ''AUTO_INCREMENT'' ''AUTO_INCREMENT'')
      else (Inr ''int unsigned'', field))"
| "inferSqlType fieldCanAutoIncrement dataValue sz field Uint32 =
     (if fieldCanAutoIncrement field
      then (Inr ''int unsigned AUTO_INCREMENT'',
            TagSettingsSet field ''AUTO_INCREMENT'' ''AUTO_INCREMENT'')
      else (Inr ''int unsigned'', field))"
| "inferSqlType fieldCanAutoIncrement dataValue sz field Uintptr =
     (if fieldCanAutoIncrement field
      then (Inr ''int unsigned AUTO_INCREMENT'',
            TagSettingsSet field ''AUTO_INCREMENT'' ''AUTO_INCREMENT'')
      else (Inr ''int unsigned'', field))"
| "inferSqlType fieldCanAutoIncrement dataValue sz field Int64 =
     (if fieldCanAutoIncrement field
      then (Inr ''bigint AUTO_INCREMENT'',
            TagSettingsSet field ''AUTO_INCREMENT'' ''AUTO_INCREMENT'')
      else (Inr ''bigint'', field))"
| "inferSqlType fieldCanAutoIncrement dataValue sz field Uint64 =
     (if fieldCanAutoIncrement field
      then (Inr ''bigint unsigned AUTO_INCREMENT'',
            TagSettingsSet field ''AUTO_INCREMENT'' ''AUTO_INCREMENT'')
      else (Inr ''bigint unsigned'', field))"
| "inferSqlType fieldCanAutoIncrement dataValue sz field Float32 = (Inr ''double'', field)"
| "inferSqlType fieldCanAutoIncrement dataValue sz field Float64 = (Inr ''double'', field)"
| "inferSqlType fieldCanAutoIncrement dataValue sz field String =
     (if 0 < sz \<and> sz < 65532
      then (Inr (''varchar('' @ formatInt sz @ '')''), field)
      else (Inr ''longtext'', field))"
| "inferSqlType fieldCanAutoIncrement dataValue sz field Struct =
     (if \<not> CanInterface dataValue then
        (Inl (Panic (''reflect.Value.Interface: cannot return value obtained from ''
                     @ ''unexported field or method'')), field)
      else if IsTime dataValue then
        (let precision = (case TagSettingsGet field ''PRECISION'' of
                            Some p \<Rightarrow> ''('' @ p @ '')''
                          | None \<Rightarrow> '''')
         in if TagSettings field ''NOT NULL'' \<noteq> None \<or> IsPrimaryKey field
            then (Inr (''DATETIME'' @ precision), field)
            else (Inr (''DATETIME'' @ precision @ '' NULL''), field))
      else (Inr '''', field))"
| "inferSqlType fieldCanAutoIncrement dataValue sz field _ =
     (if IsByteArrayOrSlice dataValue then
        (if 0 < sz \<and> sz < 65532
         then (Inr (''varbinary('' @ formatInt sz @ '')''), field)
         else (Inr ''longblob'', field))
      else (Inr '''', field))"

text \<open>
  The first statement of \<^verbatim>\<open>DataTypeOf\<close> after the parse, under the source's comment
  ``dmsql allows only one auto increment column per table, and it must be a KEY column'':
  an \<^verbatim>\<open>AUTO_INCREMENT\<close> setting is deleted when the field has no \<^verbatim>\<open>INDEX\<close> setting and is not
  the primary key.
\<close>

definition stripAutoIncrement :: "'a StructField_scheme \<Rightarrow> 'a StructField_scheme" where
  "stripAutoIncrement field =
     (case TagSettingsGet field ''AUTO_INCREMENT'' of
        Some _ \<Rightarrow>
          if TagSettingsGet field ''INDEX'' = None \<and> \<not> IsPrimaryKey field
          then TagSettingsDelete field ''AUTO_INCREMENT''
          else field
      | None \<Rightarrow> field)"

text \<open>
  \<^verbatim>\<open>func (d *dmsql) DataTypeOf(field *StructField) string\<close>. The library's
  \<^verbatim>\<open>ParseFieldStructForDialect\<close> (a parameter) gives the value, the explicit SQL type, the size
  (\<open>sz\<close>, a Go \<^verbatim>\<open>int\<close>) and the additional type of the field. The method writes to the field
  through its pointer: the result pairs the outcome, \<open>Inr\<close> the returned string or \<open>Inl\<close> the
  panic, with the field as the call leaves it. A panic inside the \<^verbatim>\<open>switch\<close> ends the call
  there; otherwise an empty \<^verbatim>\<open>sqlType\<close> is the panic of the method's own.
\<close>

definition DataTypeOf ::
  "('a StructField_scheme \<Rightarrow> Value \<times> string \<times> int \<times> string) \<Rightarrow> ('a StructField_scheme \<Rightarrow> bool)
     \<Rightarrow> 'a StructField_scheme \<Rightarrow> (panic + string) \<times> 'a StructField_scheme" where
  "DataTypeOf ParseFieldStructForDialect fieldCanAutoIncrement field =
     (case ParseFieldStructForDialect field of (dataValue, sqlType, sz, additionalType) \<Rightarrow>
        let field1 = stripAutoIncrement field;
            (inferred, field2) =
              (if sqlType = ''''
               then inferSqlType fieldCanAutoIncrement dataValue sz field1 (Kind dataValue)
               else (Inr sqlType, field1))
        in case inferred of
             Inl p \<Rightarrow> (Inl p, field2)
           | Inr sqlType2 \<Rightarrow>
               if sqlType2 = '''' then
                 (Inl (Panic (''invalid sql type '' @ TypeName dataValue @ '' (''
                              @ KindString (Kind dataValue) @ '') in field '' @ Name field2
                              @ '' for dmsql'')), field2)
               else if TrimSpaceIsEmpty additionalType then (Inr sqlType2, field2)
               else (Inr (sqlType2 @ '' '' @ additionalType), field2))"

text \<open>
  Three notions of the spec, written from its words, against which \<^verbatim>\<open>DataTypeOf\<close> is
  compared. The integer kinds and the type the spec's table gives each of them:
\<close>

definition integerKinds :: "Kind set" where
  "integerKinds =
     {Int8, IntKind, Int16, Int32, Uint8, Uint, Uint16, Uint32, Uintptr, Int64, Uint64}"

definition specIntegerType :: "Kind \<Rightarrow> string" where
  "specIntegerType k =
     (if k = Int8 then ''tinyint''
      else if k \<in> {IntKind, Int16, Int32} then ''int''
      else if k = Uint8 then ''tinyint unsigned''
      else if k \<in> {Uint, Uint16, Uint32, Uintptr} then ''int unsigned''
      else if k = Int64 then ''bigint''
      else ''bigint unsigned'')"


subsection \<open>Pagination: \<^verbatim>\<open>LimitAndOffsetSQL\<close>\<close>

text \<open>
  \<^verbatim>\<open>func (d dmsql) LimitAndOffsetSQL(limit, offset interface{}) (sql string, err error)\<close>.
  An \<^verbatim>\<open>interface{}\<close> argument is \<open>None\<close> when it is \<^verbatim>\<open>nil\<close>. The base dialect's
  \<^verbatim>\<open>parseInt\<close> is the parameter \<open>parseInt\<close>: \<open>Inl\<close> is its error, \<open>Inr\<close> the value of the
  integer it parsed (the method only compares it with 0 and prints it with \<^verbatim>\<open>%d\<close>). The
  result pairs the fragment with the error (\<open>None\<close> for \<^verbatim>\<open>nil\<close>).
\<close>

definition LimitAndOffsetSQL ::
  "('v \<Rightarrow> 'e + int) \<Rightarrow> 'v option \<Rightarrow> 'v option \<Rightarrow> string \<times> 'e option" where
  "LimitAndOffsetSQL parseInt limit offset =
     (case limit of
        None \<Rightarrow> ('''', None)
      | Some l \<Rightarrow>
          (case parseInt l of
             Inl err \<Rightarrow> ('''', Some err)
           | Inr parsedLimit \<Rightarrow>
               if 0 \<le> parsedLimit then
                 (let sql = '''' @ '' LIMIT '' @ formatInt parsedLimit in
                  case offset of
                    None \<Rightarrow> (sql, None)
                  | Some off \<Rightarrow>
                      (case parseInt off of
                         Inl err \<Rightarrow> ('''', Some err)
                       | Inr parsedOffset \<Rightarrow>
                           if 0 \<le> parsedOffset
                           then (sql @ '' OFFSET '' @ formatInt parsedOffset, None)
                           else (sql, None)))
               else ('''', None)))"

subsection \<open>Existence checks: \<^verbatim>\<open>HasForeignKey\<close>, \<^verbatim>\<open>HasTable\<close>, \<^verbatim>\<open>HasIndex\<close>, \<^verbatim>\<open>HasColumn\<close>\<close>

definition CurrentDatabase :: string where
  "CurrentDatabase = ''blockchain''"

text \<open>
  Modelled from the spec: the database handle \<^verbatim>\<open>d.db\<close> belongs to the host application. A
  call \<^verbatim>\<open>d.db.QueryRow(query, args...)\<close> is the parameter \<open>QueryRow\<close>, whose answer is either the
  failure of the query or of the scan (\<open>Inl\<close>) or the integer that the row holds (\<open>Inr\<close>).
  \<^verbatim>\<open>Scan(&count)\<close> stores the integer in \<open>count\<close> and returns no error, or returns the error
  and leaves \<open>count\<close> as it was (``count stays at its zero value'').
\<close>

definition Scan :: "'e + int \<Rightarrow> int \<Rightarrow> int \<times> 'e option" where
  "Scan row count = (case row of Inr n \<Rightarrow> (n, None) | Inl err \<Rightarrow> (count, Some err))"

text \<open>
  The four methods. The library's \<^verbatim>\<open>currentDatabaseAndTable(&d, tableName)\<close> is a parameter
  that receives what the dialect's \<^verbatim>\<open>CurrentDatabase()\<close> returns and the table name. Each method
  declares \<^verbatim>\<open>var count int\<close> (zero), scans into it, drops the error that \<^verbatim>\<open>Scan\<close> returns and
  answers \<^verbatim>\<open>count > 0\<close>.
\<close>

definition HasForeignKey ::
  "(string \<Rightarrow> string \<Rightarrow> string \<times> string) \<Rightarrow> (string \<Rightarrow> string list \<Rightarrow> 'e + int)
     \<Rightarrow> string \<Rightarrow> string \<Rightarrow> bool" where
  "HasForeignKey currentDatabaseAndTable QueryRow tableName foreignKeyName =
     (let count = 0;
          tableName = snd (currentDatabaseAndTable CurrentDatabase tableName);
          (count, _) =
            Scan (QueryRow
                    (''SELECT count(*) FROM USER_CONSTRAINTS WHERE TABLE_NAME=? AND ''
                     @ ''CONSTRAINT_NAME=? AND CONSTRAINT_TYPE='' @ [CHR 0x27] @ ''R'' @ [CHR 0x27])
                    [tableName, foreignKeyName]) count
      in 0 < count)"

definition HasTable ::
  "(string \<Rightarrow> string \<Rightarrow> string \<times> string) \<Rightarrow> (string \<Rightarrow> string list \<Rightarrow> 'e + int)
     \<Rightarrow> string \<Rightarrow> bool" where
  "HasTable currentDatabaseAndTable QueryRow tableName =
     (let (currentTableSpace, tableName) = currentDatabaseAndTable CurrentDatabase tableName;
          count = 0;
          (count, _) =
            Scan (QueryRow
                    (''SELECT count(*) FROM USER_TABLES WHERE TABLESPACE = `'' @ currentTableSpace
                     @ ''` AND TABLE_NAME = `'' @ tableName @ ''` '')
                    []) count
      in 0 < count)"

definition HasIndex ::
  "(string \<Rightarrow> string \<Rightarrow> string \<times> string) \<Rightarrow> (string \<Rightarrow> string list \<Rightarrow> 'e + int)
     \<Rightarrow> string \<Rightarrow> string \<Rightarrow> bool" where
  "HasIndex currentDatabaseAndTable QueryRow tableName indexName =
     (let (currentTableSpace, tableName) = currentDatabaseAndTable CurrentDatabase tableName;
          count = 0;
          (count, _) =
            Scan (QueryRow
                    (''SELECT count(*) FROM USER_INDEXS WHERE TABLESPACE = `'' @ currentTableSpace
                     @ ''` AND TABLE_NAME = `'' @ tableName @ ''` AND INDEX_NAME = `'' @ indexName
                     @ ''` '')
                    []) count
      in 0 < count)"

definition HasColumn ::
  "(string \<Rightarrow> string \<Rightarrow> string \<times> string) \<Rightarrow> (string \<Rightarrow> string list \<Rightarrow> 'e + int)
     \<Rightarrow> string \<Rightarrow> string \<Rightarrow> bool" where
  "HasColumn currentDatabaseAndTable QueryRow tableName columnName =
     (let tableName = snd (currentDatabaseAndTable CurrentDatabase tableName);
          count = 0;
          (count, _) =
            Scan (QueryRow
                    (''SELECT count(*) FROM USER_TAB_COLUMNS WHERE TABLE_NAME = `'' @ tableName
                     @ ''` AND COLUMN_NAME =`'' @ columnName @ ''` '')
                    []) count
      in 0 < count)"

subsection \<open>SHA-1 and hexadecimal output\<close>

text \<open>
  \<^verbatim>\<open>crypto/sha1\<close>: \<^verbatim>\<open>h := sha1.New(); h.Write(p); h.Sum(nil)\<close> is the SHA-1 digest of \<open>p\<close>
  (FIPS 180-4): the message is padded with the byte 0x80, zero bytes up to 56 modulo 64 and its
  length in bits as a big-endian 64-bit number; every block of 64 bytes is expanded to 80 words
  and run through 80 rounds; the five chaining words are written big-endian.
\<close>

type_synonym uint32 = "32 word"

definition RotateLeft32 :: "uint32 \<Rightarrow> nat \<Rightarrow> uint32" where
  "RotateLeft32 x k = push_bit k x OR drop_bit (32 - k) x"

definition sha1Padding :: "nat \<Rightarrow> string" where
  "sha1Padding len =
     char_of (0x80 :: nat) # replicate ((119 - len mod 64) mod 64) (char_of (0 :: nat))
     @ map (\<lambda>i. char_of (((8 * len) mod 2 ^ 64) div 2 ^ (8 * (7 - i)))) [0..<8]"

definition beUint32 :: "string \<Rightarrow> uint32" where
  "beUint32 p = push_bit 24 (of_char (p ! 0)) OR push_bit 16 (of_char (p ! 1))
                OR push_bit 8 (of_char (p ! 2)) OR of_char (p ! 3)"

fun sha1Schedule :: "nat \<Rightarrow> uint32 list \<Rightarrow> uint32 list" where
  "sha1Schedule 0 w = w"
| "sha1Schedule (Suc n) w =
     sha1Schedule n
       (w @ [RotateLeft32 (w ! (length w - 3) XOR w ! (length w - 8) XOR w ! (length w - 14)
                           XOR w ! (length w - 16)) 1])"

definition sha1Round ::
  "uint32 list \<Rightarrow> uint32 \<times> uint32 \<times> uint32 \<times> uint32 \<times> uint32 \<Rightarrow> nat
     \<Rightarrow> uint32 \<times> uint32 \<times> uint32 \<times> uint32 \<times> uint32" where
  "sha1Round w s i =
     (case s of (a, b, c, d, e) \<Rightarrow>
        let (f, k) =
              (if i < 20 then ((b AND c) OR (NOT b AND d), 0x5A827999)
               else if i < 40 then (b XOR c XOR d, 0x6ED9EBA1)
               else if i < 60 then (((b OR c) AND d) OR (b AND c), 0x8F1BBCDC)
               else (b XOR c XOR d, 0xCA62C1D6));
            t = RotateLeft32 a 5 + f + e + w ! i + k
        in (t, a, RotateLeft32 b 30, c, d))"

definition sha1Block ::
  "uint32 \<times> uint32 \<times> uint32 \<times> uint32 \<times> uint32 \<Rightarrow> string
     \<Rightarrow> uint32 \<times> uint32 \<times> uint32 \<times> uint32 \<times> uint32" where
  "sha1Block h p =
     (case h of (h0, h1, h2, h3, h4) \<Rightarrow>
        let w = sha1Schedule 64 (map (\<lambda>i. beUint32 (drop (4 * i) p)) [0..<16]) in
        case foldl (sha1Round w) h [0..<80] of (a, b, c, d, e) \<Rightarrow>
          (h0 + a, h1 + b, h2 + c, h3 + d, h4 + e))"

fun sha1Blocks ::
  "nat \<Rightarrow> uint32 \<times> uint32 \<times> uint32 \<times> uint32 \<times> uint32 \<Rightarrow> string
     \<Rightarrow> uint32 \<times> uint32 \<times> uint32 \<times> uint32 \<times> uint32" where
  "sha1Blocks 0 h p = h"
| "sha1Blocks (Suc n) h p = sha1Blocks n (sha1Block h (take 64 p)) (drop 64 p)"

definition putUint32 :: "uint32 \<Rightarrow> string" where
  "putUint32 x = [char_of (unat (drop_bit 24 x)), char_of (unat (drop_bit 16 x)),
                  char_of (unat (drop_bit 8 x)), char_of (unat x)]"

definition sha1Sum :: "string \<Rightarrow> string" where
  "sha1Sum msg =
     (let p = msg @ sha1Padding (length msg) in
      case sha1Blocks (length p div 64)
             (0x67452301, 0xEFCDAB89, 0x98BADCFE, 0x10325476, 0xC3D2E1F0) p
      of (h0, h1, h2, h3, h4) \<Rightarrow>
        putUint32 h0 @ putUint32 h1 @ putUint32 h2 @ putUint32 h3 @ putUint32 h4)"

text \<open>\<^verbatim>\<open>%x\<close> of a byte slice: two lower-case hexadecimal digits for every byte.\<close>

definition hexString :: "string \<Rightarrow> string" where
  "hexString bs =
     concat (map (\<lambda>c. [''0123456789abcdef'' ! (of_char c div 16),
                         ''0123456789abcdef'' ! (of_char c mod 16)]) bs)"

subsection \<open>Key names: \<^verbatim>\<open>BuildKeyName\<close>\<close>

text \<open>
  \<^verbatim>\<open>func (d dmsql) BuildKeyName(kind, tableName string, fields ...string) string\<close>. The base
  dialect's \<^verbatim>\<open>BuildKeyName\<close> and the library's \<^verbatim>\<open>keyNameRegex.ReplaceAllString\<close> are
  parameters. The variadic \<^verbatim>\<open>fields\<close> is the list \<open>fieldNames\<close>; \<^verbatim>\<open>fields[0]\<close> on an empty slice
  is the runtime panic ``index out of range [0] with length 0''.
\<close>

definition BuildKeyName ::
  "(string \<Rightarrow> string \<Rightarrow> string list \<Rightarrow> string) \<Rightarrow> (string \<Rightarrow> string \<Rightarrow> string)
     \<Rightarrow> string \<Rightarrow> string \<Rightarrow> string list \<Rightarrow> panic + string" where
  "BuildKeyName commonBuildKeyName keyNameRegexReplaceAllString kind tableName fieldNames =
     (let keyName = commonBuildKeyName kind tableName fieldNames in
      if RuneCountInString keyName \<le> 64 then Inr keyName
      else
        let bs = sha1Sum keyName in
        case fieldNames of
          [] \<Rightarrow> Inl (IndexOutOfRange 0 0)
        | field0 # _ \<Rightarrow>
            let destRunes = stringToRunes (keyNameRegexReplaceAllString field0 ''_'');
                destRunes = (if 24 < length destRunes then take 24 destRunes else destRunes)
            in Inr (runesToString destRunes @ hexString bs))"

subsection \<open>Index names with a prefix length: \<^verbatim>\<open>NormalizeIndexAndColumn\<close>\<close>

text \<open>
  \<^verbatim>\<open>dmsqlIndexRegex = regexp.MustCompile(`^(.+)\((\d+)\)$`)\<close>. The pattern matches a string
  that consists of a non-empty run of characters other than newline (\<^verbatim>\<open>.+\<close>), an opening
  parenthesis, a non-empty run of the digits 0 to 9 (\<^verbatim>\<open>\d+\<close>), and a closing parenthesis at
  the very end. All the characters that the pattern names are ASCII, and an ASCII byte is never
  part of a longer UTF-8 sequence, so the match can be told from the bytes.
  \<open>indexPattern s name digits\<close> says that \<open>s\<close> matches with these two groups.
\<close>

definition isDigit :: "char \<Rightarrow> bool" where
  "isDigit c = (c \<in> set ''0123456789'')"

definition indexPattern :: "string \<Rightarrow> string \<Rightarrow> string \<Rightarrow> bool" where
  "indexPattern s name digits =
     (s = name @ ''('' @ digits @ '')'' \<and> name \<noteq> [] \<and> CHR 0x0A \<notin> set name
      \<and> digits \<noteq> [] \<and> list_all isDigit digits)"

text \<open>
  \<^verbatim>\<open>dmsqlIndexRegex.FindStringSubmatch(s)\<close>: the slice of the whole match and the two groups,
  or \<^verbatim>\<open>nil\<close> (the empty list) when the string does not match. Read from the end of the string:
  the closing parenthesis, the longest run of digits before it, the opening parenthesis, and
  what is left is the first group.
\<close>

definition FindStringSubmatch :: "string \<Rightarrow> string list" where
  "FindStringSubmatch s =
     (case rev s of
        [] \<Rightarrow> []
      | c # r \<Rightarrow>
          if c = CHR '')'' then
            (let digits = rev (takeWhile isDigit r) in
             case dropWhile isDigit r of
               [] \<Rightarrow> []
             | c' # r' \<Rightarrow>
                 if c' = CHR ''('' \<and> digits \<noteq> [] \<and> r' \<noteq> [] \<and> CHR 0x0A \<notin> set r'
                 then [s, rev r', digits]
                 else [])
          else [])"

text \<open>\<^verbatim>\<open>func (dmsql) NormalizeIndexAndColumn(indexName, columnName string) (string, string)\<close>.\<close>

definition NormalizeIndexAndColumn :: "string \<Rightarrow> string \<Rightarrow> string \<times> string" where
  "NormalizeIndexAndColumn indexName columnName =
     (let submatch = FindStringSubmatch indexName in
      if length submatch \<noteq> 3 then (indexName, columnName)
      else (submatch ! 1, columnName @ ''('' @ submatch ! 2 @ '')''))"

section \<open>Theorems\<close>

subsection \<open>\<^verbatim>\<open>DataTypeOf\<close>: the outcome and the field it leaves\<close>

lemma stripAutoIncrement_eq:
  "stripAutoIncrement field =
     (if TagSettings field ''AUTO_INCREMENT'' \<noteq> None \<and> TagSettings field ''INDEX'' = None
         \<and> \<not> IsPrimaryKey field
      then field\<lparr>TagSettings := (TagSettings field)(''AUTO_INCREMENT'' := None)\<rparr> else field)"
  by (auto simp: stripAutoIncrement_def TagSettingsGet_def TagSettingsDelete_def
      split: option.splits)

lemma inferSqlType_field:
  "snd (inferSqlType canAuto dv sz field k) = field \<or>
   snd (inferSqlType canAuto dv sz field k) =
     TagSettingsSet field ''AUTO_INCREMENT'' ''AUTO_INCREMENT''"
  by (cases k) (simp_all add: Let_def)

lemma DataTypeOf_snd:
  "P field = (dv, sqlType, sz, add) \<Longrightarrow>
   snd (DataTypeOf P canAuto field) =
     (if sqlType = '''' then snd (inferSqlType canAuto dv sz (stripAutoIncrement field) (Kind dv))
      else stripAutoIncrement field)"
  by (simp add: DataTypeOf_def Let_def split: prod.splits sum.splits)

lemma Name_inferSqlType:
  "Name (snd (inferSqlType canAuto dv sz field k)) = Name field"
  using inferSqlType_field[of canAuto dv sz field k] by (auto simp: TagSettingsSet_def)

lemma DataTypeOf_fst:
  "P field = (dv, sqlType, sz, add) \<Longrightarrow>
   fst (DataTypeOf P canAuto field) =
     (case (if sqlType = ''''
            then fst (inferSqlType canAuto dv sz (stripAutoIncrement field) (Kind dv))
            else Inr sqlType) of
        Inl p \<Rightarrow> Inl p
      | Inr t \<Rightarrow>
          if t = '''' then
            Inl (Panic (''invalid sql type '' @ TypeName dv @ '' ('' @ KindString (Kind dv)
                        @ '') in field '' @ Name field @ '' for dmsql''))
          else if TrimSpaceIsEmpty add then Inr t else Inr (t @ '' '' @ add))"
  using Name_inferSqlType[of canAuto dv sz "stripAutoIncrement field" "Kind dv"]
  by (auto simp: DataTypeOf_def Let_def stripAutoIncrement_eq split: prod.splits sum.splits)

lemmas DataTypeOf_eval =
  DataTypeOf_def stripAutoIncrement_def TagSettingsGet_def TagSettingsSet_def
  TagSettingsDelete_def Let_def TrimSpaceIsEmpty_def stringToRunes.simps DecodeRuneInString_def
  inRange_def IsSpace_def formatInt_def natToDec.simps

text \<open>
  Claim C10. \<^verbatim>\<open>DataTypeOf\<close> changes at most the \<^verbatim>\<open>AUTO_INCREMENT\<close> entry of the field's tag
  settings: the name, the primary-key flag, every other attribute of the field (the extension
  part of the record, where the library keeps the rest, the field's type among them) and every
  other tag setting (\<^verbatim>\<open>SIZE\<close> among them) are as before the call, whether it returns or
  panics; the \<^verbatim>\<open>AUTO_INCREMENT\<close> entry is as before, deleted, or set to
  \<open>''AUTO_INCREMENT''\<close>. (The two helpers that receive the field, \<open>P\<close> for
  \<^verbatim>\<open>ParseFieldStructForDialect\<close> and \<open>canAuto\<close> for \<^verbatim>\<open>fieldCanAutoIncrement\<close>, only read it.)
\<close>

theorem DataTypeOf_frame:
  "Name (snd (DataTypeOf P canAuto field)) = Name field
   \<and> IsPrimaryKey (snd (DataTypeOf P canAuto field)) = IsPrimaryKey field
   \<and> StructField.more (snd (DataTypeOf P canAuto field)) = StructField.more field
   \<and> (\<forall>key. key \<noteq> ''AUTO_INCREMENT'' \<longrightarrow>
         TagSettings (snd (DataTypeOf P canAuto field)) key = TagSettings field key)
   \<and> TagSettings (snd (DataTypeOf P canAuto field)) ''AUTO_INCREMENT''
        \<in> {TagSettings field ''AUTO_INCREMENT'', None, Some ''AUTO_INCREMENT''}"
proof -
  obtain dv sqlType sz add where p: "P field = (dv, sqlType, sz, add)"
    by (cases "P field") auto
  show ?thesis
    using inferSqlType_field[of canAuto dv sz "stripAutoIncrement field" "Kind dv"]
    by (auto simp: DataTypeOf_snd[of P field, OF p] stripAutoIncrement_eq TagSettingsSet_def)
qed

theorem DataTypeOf_frame_witness:
  "TagSettings (snd (DataTypeOf
      (\<lambda>_. (\<lparr>Kind = Int64, TypeName = ''int64'', IsTime = False, IsByteArrayOrSlice = False,
              CanInterface = True\<rparr>,
             '''', 255, ''NOT NULL''))
      IsPrimaryKey
      \<lparr>Name = ''id'', IsPrimaryKey = True, TagSettings = [''NOT NULL'' \<mapsto> ''NOT NULL'']\<rparr>))
      ''NOT NULL'' = Some ''NOT NULL''
   \<and> TagSettings (snd (DataTypeOf
      (\<lambda>_. (\<lparr>Kind = Int64, TypeName = ''int64'', IsTime = False, IsByteArrayOrSlice = False,
              CanInterface = True\<rparr>,
             '''', 255, ''NOT NULL''))
      IsPrimaryKey
      \<lparr>Name = ''id'', IsPrimaryKey = True, TagSettings = [''NOT NULL'' \<mapsto> ''NOT NULL'']\<rparr>))
      ''AUTO_INCREMENT'' = Some ''AUTO_INCREMENT''
   \<and> Name (snd (DataTypeOf
      (\<lambda>_. (\<lparr>Kind = Int64, TypeName = ''int64'', IsTime = False, IsByteArrayOrSlice = False,
              CanInterface = True\<rparr>,
             '''', 255, ''NOT NULL''))
      IsPrimaryKey
      \<lparr>Name = ''id'', IsPrimaryKey = True, TagSettings = [''NOT NULL'' \<mapsto> ''NOT NULL'']\<rparr>))
      = ''id''"
  using DataTypeOf_frame
    [of "\<lambda>_. (\<lparr>Kind = Int64, TypeName = ''int64'', IsTime = False, IsByteArrayOrSlice = False,
              CanInterface = True\<rparr>,
             '''', 255, ''NOT NULL'')"
        IsPrimaryKey
        "\<lparr>Name = ''id'', IsPrimaryKey = True, TagSettings = [''NOT NULL'' \<mapsto> ''NOT NULL'']\<rparr>"]
  by (simp add: DataTypeOf_eval)

subsection \<open>\<^verbatim>\<open>DataTypeOf\<close>: strings\<close>

text \<open>
  Claim C3, as the code has it. For a field with no explicit SQL type whose kind is string,
  \<^verbatim>\<open>DataTypeOf\<close> returns \<open>varchar(<size>)\<close> when \<open>0 < size < 65532\<close> and \<open>longtext\<close>
  otherwise, followed by a space and the additional type whenever the additional type is not
  blank; the bare \<open>varchar(<size>)\<close> or \<open>longtext\<close> is returned exactly when the additional
  type is blank.
\<close>

theorem DataTypeOf_string:
  "P field = (dataValue, '''', sz, additionalType) \<and> Kind dataValue = String \<longrightarrow>
   fst (DataTypeOf P canAuto field) =
     Inr ((if 0 < sz \<and> sz < 65532 then ''varchar('' @ formatInt sz @ '')'' else ''longtext'')
          @ (if TrimSpaceIsEmpty additionalType then '''' else '' '' @ additionalType))"
  by (auto simp: DataTypeOf_fst[of P field] Let_def)

theorem DataTypeOf_string_witness:
  "fst (DataTypeOf
      (\<lambda>_. (\<lparr>Kind = String, TypeName = ''string'', IsTime = False, IsByteArrayOrSlice = False,
              CanInterface = True\<rparr>,
             '''', 100, ''''))
      IsPrimaryKey \<lparr>Name = ''title'', IsPrimaryKey = False, TagSettings = [''SIZE'' \<mapsto> ''100'']\<rparr>)
     = Inr ''varchar(100)''
   \<and> fst (DataTypeOf
      (\<lambda>_. (\<lparr>Kind = String, TypeName = ''string'', IsTime = False, IsByteArrayOrSlice = False,
              CanInterface = True\<rparr>,
             '''', 0, ''''))
      IsPrimaryKey \<lparr>Name = ''title'', IsPrimaryKey = False, TagSettings = [''SIZE'' \<mapsto> ''0'']\<rparr>)
     = Inr ''longtext''
   \<and> fst (DataTypeOf
      (\<lambda>_. (\<lparr>Kind = String, TypeName = ''string'', IsTime = False, IsByteArrayOrSlice = False,
              CanInterface = True\<rparr>,
             '''', 65532, ''''))
      IsPrimaryKey \<lparr>Name = ''title'', IsPrimaryKey = False, TagSettings = [''SIZE'' \<mapsto> ''65532'']\<rparr>)
     = Inr ''longtext''"
  using DataTypeOf_string
    [of "\<lambda>_. (\<lparr>Kind = String, TypeName = ''string'', IsTime = False, IsByteArrayOrSlice = False,
              CanInterface = True\<rparr>,
             '''', 100, '''')"
        "\<lparr>Name = ''title'', IsPrimaryKey = False, TagSettings = [''SIZE'' \<mapsto> ''100'']\<rparr>"
        "\<lparr>Kind = String, TypeName = ''string'', IsTime = False, IsByteArrayOrSlice = False,
              CanInterface = True\<rparr>"
        100 "''''" IsPrimaryKey]
    DataTypeOf_string
    [of "\<lambda>_. (\<lparr>Kind = String, TypeName = ''string'', IsTime = False, IsByteArrayOrSlice = False,
              CanInterface = True\<rparr>,
             '''', 0, '''')"
        "\<lparr>Name = ''title'', IsPrimaryKey = False, TagSettings = [''SIZE'' \<mapsto> ''0'']\<rparr>"
        "\<lparr>Kind = String, TypeName = ''string'', IsTime = False, IsByteArrayOrSlice = False,
              CanInterface = True\<rparr>"
        0 "''''" IsPrimaryKey]
    DataTypeOf_string
    [of "\<lambda>_. (\<lparr>Kind = String, TypeName = ''string'', IsTime = False, IsByteArrayOrSlice = False,
              CanInterface = True\<rparr>,
             '''', 65532, '''')"
        "\<lparr>Name = ''title'', IsPrimaryKey = False, TagSettings = [''SIZE'' \<mapsto> ''65532'']\<rparr>"
        "\<lparr>Kind = String, TypeName = ''string'', IsTime = False, IsByteArrayOrSlice = False,
              CanInterface = True\<rparr>"
        65532 "''''" IsPrimaryKey]
  by (simp add: TrimSpaceIsEmpty_def stringToRunes.simps formatInt_def natToDec.simps)

text \<open>
  The claim as the spec states it fails for a string field of size 100 that is also
  \<^verbatim>\<open>NOT NULL\<close>: the call returns \<open>varchar(100) NOT NULL\<close>, not \<open>varchar(100)\<close>.
\<close>

theorem DataTypeOf_string_counterexample:
  "fst (DataTypeOf
      (\<lambda>_. (\<lparr>Kind = String, TypeName = ''string'', IsTime = False, IsByteArrayOrSlice = False,
              CanInterface = True\<rparr>,
             '''', 100, ''NOT NULL''))
      IsPrimaryKey
      \<lparr>Name = ''title'', IsPrimaryKey = False,
       TagSettings = [''SIZE'' \<mapsto> ''100'', ''NOT NULL'' \<mapsto> ''NOT NULL'']\<rparr>)
     = Inr ''varchar(100) NOT NULL''
   \<and> Inr ''varchar(100) NOT NULL'' \<noteq> (Inr ''varchar(100)'' :: panic + string)"
  by (simp add: DataTypeOf_eval)

subsection \<open>\<^verbatim>\<open>DataTypeOf\<close>: integers that qualify for auto-increment\<close>

lemma inferSqlType_integer:
  "k \<in> integerKinds \<Longrightarrow>
   inferSqlType canAuto dv sz field k =
     (if canAuto field
      then (Inr (specIntegerType k @ '' AUTO_INCREMENT''),
            TagSettingsSet field ''AUTO_INCREMENT'' ''AUTO_INCREMENT'')
      else (Inr (specIntegerType k), field))"
  by (auto simp: integerKinds_def specIntegerType_def)

text \<open>
  Claim C2, as the code has it. The base dialect's rule is asked about the field as the first
  step of \<^verbatim>\<open>DataTypeOf\<close> leaves it (\<open>stripAutoIncrement field\<close>). For a field with no explicit
  SQL type whose kind is one of the eleven integer kinds and which qualifies there,
  \<^verbatim>\<open>DataTypeOf\<close> returns the integer type of the kind followed by \<open>'' AUTO_INCREMENT''\<close>, then
  a space and the additional type when the additional type is not blank; so the returned string
  ends in \<open>AUTO_INCREMENT\<close> when the additional type is blank. In both cases the field's
  \<^verbatim>\<open>AUTO_INCREMENT\<close> tag setting is \<open>''AUTO_INCREMENT''\<close> after the call.
\<close>

theorem DataTypeOf_auto_increment:
  "P field = (dataValue, '''', sz, additionalType) \<and> Kind dataValue \<in> integerKinds
     \<and> canAuto (stripAutoIncrement field) \<longrightarrow>
   fst (DataTypeOf P canAuto field) =
     Inr (specIntegerType (Kind dataValue) @ '' AUTO_INCREMENT''
          @ (if TrimSpaceIsEmpty additionalType then '''' else '' '' @ additionalType))
   \<and> (TrimSpaceIsEmpty additionalType \<longrightarrow>
        (\<exists>s. fst (DataTypeOf P canAuto field) = Inr s \<and> suffix ''AUTO_INCREMENT'' s))
   \<and> TagSettings (snd (DataTypeOf P canAuto field)) ''AUTO_INCREMENT'' = Some ''AUTO_INCREMENT''"
  by (auto simp: DataTypeOf_fst[of P field] DataTypeOf_snd[of P field] Let_def
      inferSqlType_integer TagSettingsSet_def suffix_def)

theorem DataTypeOf_auto_increment_witness:
  "fst (DataTypeOf
      (\<lambda>_. (\<lparr>Kind = Uint, TypeName = ''uint'', IsTime = False, IsByteArrayOrSlice = False,
              CanInterface = True\<rparr>,
             '''', 255, ''''))
      IsPrimaryKey \<lparr>Name = ''id'', IsPrimaryKey = True, TagSettings = Map.empty\<rparr>)
     = Inr ''int unsigned AUTO_INCREMENT''
   \<and> suffix ''AUTO_INCREMENT'' ''int unsigned AUTO_INCREMENT''
   \<and> TagSettings (snd (DataTypeOf
      (\<lambda>_. (\<lparr>Kind = Uint, TypeName = ''uint'', IsTime = False, IsByteArrayOrSlice = False,
              CanInterface = True\<rparr>,
             '''', 255, ''''))
      IsPrimaryKey \<lparr>Name = ''id'', IsPrimaryKey = True, TagSettings = Map.empty\<rparr>))
      ''AUTO_INCREMENT'' = Some ''AUTO_INCREMENT''"
  using DataTypeOf_auto_increment
    [of "\<lambda>_. (\<lparr>Kind = Uint, TypeName = ''uint'', IsTime = False, IsByteArrayOrSlice = False,
              CanInterface = True\<rparr>,
             '''', 255, '''')"
        "\<lparr>Name = ''id'', IsPrimaryKey = True, TagSettings = Map.empty\<rparr>"
        "\<lparr>Kind = Uint, TypeName = ''uint'', IsTime = False, IsByteArrayOrSlice = False,
              CanInterface = True\<rparr>"
        255 "''''" IsPrimaryKey]
  by (simp add: integerKinds_def specIntegerType_def stripAutoIncrement_eq TrimSpaceIsEmpty_def
      stringToRunes.simps suffix_to_prefix)

text \<open>
  The claim as the spec states it fails for a primary key of kind int that is also
  \<^verbatim>\<open>NOT NULL\<close>: the field qualifies (here under the rule ``the primary key qualifies''), the
  tag is set, and the returned string \<open>int AUTO_INCREMENT NOT NULL\<close> does not end in
  \<open>AUTO_INCREMENT\<close>.
\<close>

theorem DataTypeOf_auto_increment_counterexample:
  "IsPrimaryKey (stripAutoIncrement
      \<lparr>Name = ''id'', IsPrimaryKey = True, TagSettings = [''NOT NULL'' \<mapsto> ''NOT NULL'']\<rparr>)
   \<and> fst (DataTypeOf
      (\<lambda>_. (\<lparr>Kind = IntKind, TypeName = ''int'', IsTime = False, IsByteArrayOrSlice = False,
              CanInterface = True\<rparr>,
             '''', 255, ''NOT NULL''))
      IsPrimaryKey
      \<lparr>Name = ''id'', IsPrimaryKey = True, TagSettings = [''NOT NULL'' \<mapsto> ''NOT NULL'']\<rparr>)
     = Inr ''int AUTO_INCREMENT NOT NULL''
   \<and> \<not> suffix ''AUTO_INCREMENT'' ''int AUTO_INCREMENT NOT NULL''"
  by (simp add: DataTypeOf_eval suffix_to_prefix)

subsection \<open>\<^verbatim>\<open>DataTypeOf\<close>: the fatal error\<close>






subsection \<open>\<^verbatim>\<open>DataTypeOf\<close>: a field that is not a key\<close>

lemma sublist_sep:
  assumes c: "c \<notin> set n" and s: "sublist n (a @ c # b)"
  shows "sublist n a \<or> sublist n b"
proof -
  from s obtain ps ss where e: "a @ c # b = ps @ n @ ss" by (auto simp: sublist_def)
  then obtain us
    where us: "(a = ps @ us \<and> us @ c # b = n @ ss) \<or> (a @ us = ps \<and> c # b = us @ n @ ss)"
    by (auto simp: append_eq_append_conv2)
  show ?thesis
  proof (cases "a = ps @ us \<and> us @ c # b = n @ ss")
    case True
    then obtain vs
      where vs: "(us = n @ vs \<and> vs @ c # b = ss) \<or> (us @ vs = n \<and> c # b = vs @ ss)"
      by (auto simp: append_eq_append_conv2)
    show ?thesis
    proof (cases "us = n @ vs \<and> vs @ c # b = ss")
      case True
      with \<open>a = ps @ us \<and> us @ c # b = n @ ss\<close> have "a = ps @ n @ vs" by simp
      then show ?thesis by (auto simp: sublist_def)
    next
      case False
      with vs have v: "us @ vs = n" "c # b = vs @ ss" by auto
      show ?thesis
      proof (cases vs)
        case Nil
        with v True have "a = ps @ n @ []" by simp
        then show ?thesis unfolding sublist_def by blast
      next
        case (Cons v vs')
        with v have "c \<in> set n" by auto
        with c show ?thesis by simp
      qed
    qed
  next
    case False
    with us have u: "a @ us = ps" "c # b = us @ n @ ss" by auto
    show ?thesis
    proof (cases us)
      case Nil
      with u c have "n = []" by (cases n) auto
      then show ?thesis by simp
    next
      case (Cons u us')
      with u have "b = us' @ n @ ss" by simp
      then show ?thesis unfolding sublist_def by blast
    qed
  qed
qed

lemma digit_mem: "k < 10 \<Longrightarrow> ''0123456789'' ! k \<in> set ''0123456789''" for k :: nat
  by (rule nth_mem) simp

lemma natToDec_chars: "set (natToDec n) \<subseteq> set ''0123456789''"
proof (induction n rule: natToDec.induct)
  case (1 n)
  show ?case
  proof (cases "n < 10")
    case True
    have "natToDec n = [''0123456789'' ! n]" using True by (subst natToDec.simps) simp
    then show ?thesis using digit_mem[OF True] by simp
  next
    case False
    have e: "natToDec n = natToDec (n div 10) @ [''0123456789'' ! (n mod 10)]"
      using False by (subst natToDec.simps) simp
    have "set (natToDec (n div 10)) \<subseteq> set ''0123456789''" using 1 False by simp
    moreover have "''0123456789'' ! (n mod 10) \<in> set ''0123456789''" by (rule digit_mem) simp
    ultimately show ?thesis unfolding e by simp
  qed
qed

lemma formatInt_chars: "set (formatInt i) \<subseteq> insert CHR ''-'' (set ''0123456789'')"
proof (cases "i < 0")
  case True
  have "set (natToDec (nat (- i))) \<subseteq> insert CHR ''-'' (set ''0123456789'')"
    using natToDec_chars[of "nat (- i)"] by (rule subset_insertI2)
  then show ?thesis using True unfolding formatInt_def by (simp del: set_simps add: list.set(2))
next
  case False
  have "set (natToDec (nat i)) \<subseteq> insert CHR ''-'' (set ''0123456789'')"
    using natToDec_chars[of "nat i"] by (rule subset_insertI2)
  then show ?thesis using False unfolding formatInt_def by (simp del: set_simps)
qed

lemma formatInt_no_A: "CHR ''A'' \<notin> set (formatInt i)"
proof
  assume "CHR ''A'' \<in> set (formatInt i)"
  from formatInt_chars[of i] this have "CHR ''A'' \<in> insert CHR ''-'' (set ''0123456789'')"
    by (rule subsetD)
  then show False by simp
qed

lemma sublist_AI_mem: "sublist ''AUTO_INCREMENT'' s \<Longrightarrow> CHR ''A'' \<in> set s"
proof -
  assume "sublist ''AUTO_INCREMENT'' s"
  then have "set ''AUTO_INCREMENT'' \<subseteq> set s" by (rule set_mono_sublist)
  moreover have "CHR ''A'' \<in> set ''AUTO_INCREMENT''" by simp
  ultimately show ?thesis by (rule subsetD)
qed

lemma no_AI_sep:
  "\<not> sublist ''AUTO_INCREMENT'' a \<Longrightarrow> \<not> sublist ''AUTO_INCREMENT'' b
   \<Longrightarrow> c \<notin> set ''AUTO_INCREMENT'' \<Longrightarrow> \<not> sublist ''AUTO_INCREMENT'' (a @ c # b)"
  using sublist_sep[of c "''AUTO_INCREMENT''" a b] by blast

lemma no_AI_formatInt: "\<not> sublist ''AUTO_INCREMENT'' (formatInt i)"
  using sublist_AI_mem[of "formatInt i"] formatInt_no_A[of i] by blast

lemma no_AI_paren:
  assumes "\<not> sublist ''AUTO_INCREMENT'' a" "\<not> sublist ''AUTO_INCREMENT'' b"
    "\<not> sublist ''AUTO_INCREMENT'' c"
  shows "\<not> sublist ''AUTO_INCREMENT'' (a @ ''('' @ b @ '')'' @ c)"
proof -
  have "\<not> sublist ''AUTO_INCREMENT'' (b @ CHR '')'' # c)"
    using assms(2,3) by (rule no_AI_sep) simp
  with assms(1) have "\<not> sublist ''AUTO_INCREMENT'' (a @ CHR ''('' # (b @ CHR '')'' # c))"
    by (rule no_AI_sep) simp
  then show ?thesis by simp
qed

lemma no_AI_space:
  assumes "\<not> sublist ''AUTO_INCREMENT'' a" "\<not> sublist ''AUTO_INCREMENT'' b"
  shows "\<not> sublist ''AUTO_INCREMENT'' (a @ '' '' @ b)"
proof -
  have "\<not> sublist ''AUTO_INCREMENT'' (a @ CHR '' '' # b)"
    using assms by (rule no_AI_sep) simp
  then show ?thesis by simp
qed

lemma no_AI_literals:
  "\<not> sublist ''AUTO_INCREMENT'' ''bit''"
  "\<not> sublist ''AUTO_INCREMENT'' ''tinyint''"
  "\<not> sublist ''AUTO_INCREMENT'' ''int''"
  "\<not> sublist ''AUTO_INCREMENT'' ''tinyint unsigned''"
  "\<not> sublist ''AUTO_INCREMENT'' ''int unsigned''"
  "\<not> sublist ''AUTO_INCREMENT'' ''bigint''"
  "\<not> sublist ''AUTO_INCREMENT'' ''bigint unsigned''"
  "\<not> sublist ''AUTO_INCREMENT'' ''double''"
  "\<not> sublist ''AUTO_INCREMENT'' ''longtext''"
  "\<not> sublist ''AUTO_INCREMENT'' ''longblob''"
  "\<not> sublist ''AUTO_INCREMENT'' ''varchar''"
  "\<not> sublist ''AUTO_INCREMENT'' ''varbinary''"
  "\<not> sublist ''AUTO_INCREMENT'' ''DATETIME''"
  "\<not> sublist ''AUTO_INCREMENT'' '' NULL''"
  "\<not> sublist ''AUTO_INCREMENT'' ''''"
  by (simp_all add: sublist_code(3))

lemma inferSqlType_not_eligible:
  "\<not> canAuto field \<Longrightarrow> snd (inferSqlType canAuto dv sz field k) = field"
  by (cases k) (simp_all add: Let_def)

lemma inferSqlType_no_AI:
  assumes c: "\<not> canAuto field"
    and p: "\<forall>p. TagSettings field ''PRECISION'' = Some p \<longrightarrow> \<not> sublist ''AUTO_INCREMENT'' p"
    and r: "fst (inferSqlType canAuto dv sz field k) = Inr s"
  shows "\<not> sublist ''AUTO_INCREMENT'' s"
proof -
  have vc: "\<not> sublist ''AUTO_INCREMENT'' (''varchar('' @ formatInt sz @ '')'')"
    using no_AI_paren[OF no_AI_literals(11) no_AI_formatInt[of sz] no_AI_literals(15)] by simp
  have vb: "\<not> sublist ''AUTO_INCREMENT'' (''varbinary('' @ formatInt sz @ '')'')"
    using no_AI_paren[OF no_AI_literals(12) no_AI_formatInt[of sz] no_AI_literals(15)] by simp
  have dt1: "\<not> sublist ''AUTO_INCREMENT'' (''DATETIME'' @ ''('' @ q @ '')'')"
    if "\<not> sublist ''AUTO_INCREMENT'' q" for q
    using no_AI_paren[OF no_AI_literals(13) that no_AI_literals(15)] by simp
  have dt2: "\<not> sublist ''AUTO_INCREMENT'' (''DATETIME'' @ ''('' @ q @ '')'' @ '' NULL'')"
    if "\<not> sublist ''AUTO_INCREMENT'' q" for q
    using no_AI_paren[OF no_AI_literals(13) that no_AI_literals(14)] by simp
  have dt3: "\<not> sublist ''AUTO_INCREMENT'' ''DATETIME NULL''"
    by (simp add: sublist_code(3))
  show ?thesis
  proof (cases k)
    case String
    then show ?thesis using r vc no_AI_literals by (auto split: if_splits)
  next
    case Struct
    show ?thesis
    proof (cases "TagSettings field ''PRECISION''")
      case None
      then show ?thesis using r Struct dt3 no_AI_literals
        by (auto simp: TagSettingsGet_def Let_def split: if_splits)
    next
      case (Some q)
      with p have "\<not> sublist ''AUTO_INCREMENT'' q" by simp
      then show ?thesis using r Struct Some dt1[of q] dt2[of q] no_AI_literals(15)
        by (auto simp: TagSettingsGet_def Let_def split: if_splits)
    qed
  qed (insert r c vb no_AI_literals, auto split: if_splits)
qed

lemma stripAutoIncrement_not_key:
  assumes "\<not> IsPrimaryKey field" "TagSettings field ''INDEX'' = None"
  shows "TagSettings (stripAutoIncrement field) ''AUTO_INCREMENT'' = None"
    and "\<not> IsPrimaryKey (stripAutoIncrement field)"
    and "TagSettings (stripAutoIncrement field) ''PRECISION'' = TagSettings field ''PRECISION''"
  using assms by (auto simp: stripAutoIncrement_eq)

text \<open>
  Claim C1, as the code has it. Take a field that is neither the primary key nor carries an
  \<^verbatim>\<open>INDEX\<close> tag setting, and a base dialect whose rule admits only fields that carry an
  \<^verbatim>\<open>AUTO_INCREMENT\<close> setting or are the primary key. After \<^verbatim>\<open>DataTypeOf\<close> the field's
  \<^verbatim>\<open>AUTO_INCREMENT\<close> setting is absent, whether or not the caller had set it. The returned
  string does not contain \<open>AUTO_INCREMENT\<close> provided none of the texts that the method copies
  into its result contains it: the explicit SQL type, the additional type and the
  \<^verbatim>\<open>PRECISION\<close> setting.
\<close>

theorem DataTypeOf_not_key:
  "P field = (dataValue, sqlType, sz, additionalType) \<and> \<not> IsPrimaryKey field
     \<and> TagSettings field ''INDEX'' = None
     \<and> (\<forall>g. canAuto g \<longrightarrow> TagSettings g ''AUTO_INCREMENT'' \<noteq> None \<or> IsPrimaryKey g) \<longrightarrow>
   TagSettings (snd (DataTypeOf P canAuto field)) ''AUTO_INCREMENT'' = None
   \<and> (\<not> sublist ''AUTO_INCREMENT'' sqlType \<and> \<not> sublist ''AUTO_INCREMENT'' additionalType
        \<and> (\<forall>p. TagSettings field ''PRECISION'' = Some p \<longrightarrow> \<not> sublist ''AUTO_INCREMENT'' p) \<longrightarrow>
      (\<forall>s. fst (DataTypeOf P canAuto field) = Inr s \<longrightarrow> \<not> sublist ''AUTO_INCREMENT'' s))"
proof (intro impI, elim conjE)
  assume p: "P field = (dataValue, sqlType, sz, additionalType)"
    and k: "\<not> IsPrimaryKey field" "TagSettings field ''INDEX'' = None"
    and r: "\<forall>g. canAuto g \<longrightarrow> TagSettings g ''AUTO_INCREMENT'' \<noteq> None \<or> IsPrimaryKey g"
  let ?f1 = "stripAutoIncrement field"
  let ?t = "fst (inferSqlType canAuto dataValue sz ?f1 (Kind dataValue))"
  note s = stripAutoIncrement_not_key[OF k]
  from r s(1,2) have c: "\<not> canAuto ?f1" by blast
  have snd_eq: "snd (DataTypeOf P canAuto field) = ?f1"
    using DataTypeOf_snd[of P field, OF p, of canAuto]
      inferSqlType_not_eligible[of canAuto ?f1, OF c] by simp
  have tag: "TagSettings (snd (DataTypeOf P canAuto field)) ''AUTO_INCREMENT'' = None"
    using snd_eq s(1) by simp
  have str: "\<forall>s. fst (DataTypeOf P canAuto field) = Inr s \<longrightarrow> \<not> sublist ''AUTO_INCREMENT'' s"
    if t: "\<not> sublist ''AUTO_INCREMENT'' sqlType" "\<not> sublist ''AUTO_INCREMENT'' additionalType"
      "\<forall>p. TagSettings field ''PRECISION'' = Some p \<longrightarrow> \<not> sublist ''AUTO_INCREMENT'' p"
  proof -
    have p3: "\<forall>p. TagSettings ?f1 ''PRECISION'' = Some p \<longrightarrow> \<not> sublist ''AUTO_INCREMENT'' p"
      using t(3) s(3) by simp
    have i: "\<not> sublist ''AUTO_INCREMENT'' u" if "?t = Inr u" for u
      using inferSqlType_no_AI[of canAuto ?f1 dataValue sz "Kind dataValue" u, OF c p3 that] .
    define ty where "ty = (if sqlType = '''' then ?t else Inr sqlType)"
    have ty: "\<not> sublist ''AUTO_INCREMENT'' u" if "ty = Inr u" for u
      using that i t(1) by (auto simp: ty_def split: if_splits)
    have ty2: "\<not> sublist ''AUTO_INCREMENT'' (u @ '' '' @ additionalType)" if "ty = Inr u" for u
      using ty[OF that] t(2) by (rule no_AI_space)
    have "fst (DataTypeOf P canAuto field) =
       (case ty of
          Inl e \<Rightarrow> Inl e
        | Inr u \<Rightarrow>
            if u = '''' then
              Inl (Panic (''invalid sql type '' @ TypeName dataValue @ '' (''
                          @ KindString (Kind dataValue) @ '') in field '' @ Name field
                          @ '' for dmsql''))
            else if TrimSpaceIsEmpty additionalType then Inr u
            else Inr (u @ '' '' @ additionalType))"
      using DataTypeOf_fst[of P field, OF p, of canAuto] by (simp add: ty_def)
    then show ?thesis using ty ty2 by (auto split: if_splits sum.splits)
  qed
  show "TagSettings (snd (DataTypeOf P canAuto field)) ''AUTO_INCREMENT'' = None
   \<and> (\<not> sublist ''AUTO_INCREMENT'' sqlType \<and> \<not> sublist ''AUTO_INCREMENT'' additionalType
        \<and> (\<forall>p. TagSettings field ''PRECISION'' = Some p \<longrightarrow> \<not> sublist ''AUTO_INCREMENT'' p) \<longrightarrow>
      (\<forall>s. fst (DataTypeOf P canAuto field) = Inr s \<longrightarrow> \<not> sublist ''AUTO_INCREMENT'' s))"
    using tag str by blast
qed

text \<open>
  A field that asks for \<^verbatim>\<open>AUTO_INCREMENT\<close> but is no key, under a rule that admits a field
  whose \<^verbatim>\<open>AUTO_INCREMENT\<close> setting is not \<open>false\<close> and otherwise the primary key: the setting is
  gone after the call and the type is the plain \<open>int\<close>.
\<close>

theorem DataTypeOf_not_key_witness:
  "fst (DataTypeOf
      (\<lambda>_. (\<lparr>Kind = IntKind, TypeName = ''int'', IsTime = False, IsByteArrayOrSlice = False,
              CanInterface = True\<rparr>,
             '''', 255, ''''))
      (\<lambda>g. case TagSettings g ''AUTO_INCREMENT'' of Some v \<Rightarrow> v \<noteq> ''false''
            | None \<Rightarrow> IsPrimaryKey g)
      \<lparr>Name = ''counter'', IsPrimaryKey = False,
       TagSettings = [''AUTO_INCREMENT'' \<mapsto> ''AUTO_INCREMENT'']\<rparr>)
     = Inr ''int''
   \<and> \<not> sublist ''AUTO_INCREMENT'' ''int''
   \<and> TagSettings (snd (DataTypeOf
      (\<lambda>_. (\<lparr>Kind = IntKind, TypeName = ''int'', IsTime = False, IsByteArrayOrSlice = False,
              CanInterface = True\<rparr>,
             '''', 255, ''''))
      (\<lambda>g. case TagSettings g ''AUTO_INCREMENT'' of Some v \<Rightarrow> v \<noteq> ''false''
            | None \<Rightarrow> IsPrimaryKey g)
      \<lparr>Name = ''counter'', IsPrimaryKey = False,
       TagSettings = [''AUTO_INCREMENT'' \<mapsto> ''AUTO_INCREMENT'']\<rparr>))
      ''AUTO_INCREMENT'' = None"
proof -
  have rule: "\<forall>g :: StructField.
      (case TagSettings g ''AUTO_INCREMENT'' of Some v \<Rightarrow> v \<noteq> ''false'' | None \<Rightarrow> IsPrimaryKey g)
      \<longrightarrow> TagSettings g ''AUTO_INCREMENT'' \<noteq> None \<or> IsPrimaryKey g"
    by (auto split: option.splits)
  show ?thesis
    using rule DataTypeOf_not_key
      [of "\<lambda>_. (\<lparr>Kind = IntKind, TypeName = ''int'', IsTime = False, IsByteArrayOrSlice = False,
              CanInterface = True\<rparr>,
               '''', 255, '''')"
          "\<lparr>Name = ''counter'', IsPrimaryKey = False,
            TagSettings = [''AUTO_INCREMENT'' \<mapsto> ''AUTO_INCREMENT'']\<rparr>"
          "\<lparr>Kind = IntKind, TypeName = ''int'', IsTime = False, IsByteArrayOrSlice = False,
              CanInterface = True\<rparr>"
          "''''" 255 "''''"
          "\<lambda>g. case TagSettings g ''AUTO_INCREMENT'' of Some v \<Rightarrow> v \<noteq> ''false''
                | None \<Rightarrow> IsPrimaryKey g"]
    by (simp add: DataTypeOf_eval sublist_code(3))
qed

text \<open>
  The claim as the spec states it fails for a field that is no key and whose explicit SQL type
  is \<open>int AUTO_INCREMENT\<close>: the explicit type is returned as it is.
\<close>

theorem DataTypeOf_not_key_counterexample:
  "\<not> IsPrimaryKey \<lparr>Name = ''counter'', IsPrimaryKey = False,
                    TagSettings = [''TYPE'' \<mapsto> ''int AUTO_INCREMENT'']\<rparr>
   \<and> TagSettings \<lparr>Name = ''counter'', IsPrimaryKey = False,
                   TagSettings = [''TYPE'' \<mapsto> ''int AUTO_INCREMENT'']\<rparr> ''INDEX'' = None
   \<and> fst (DataTypeOf
      (\<lambda>_. (\<lparr>Kind = IntKind, TypeName = ''int'', IsTime = False, IsByteArrayOrSlice = False,
              CanInterface = True\<rparr>,
             ''int AUTO_INCREMENT'', 255, ''''))
      IsPrimaryKey
      \<lparr>Name = ''counter'', IsPrimaryKey = False,
       TagSettings = [''TYPE'' \<mapsto> ''int AUTO_INCREMENT'']\<rparr>)
     = Inr ''int AUTO_INCREMENT''
   \<and> sublist ''AUTO_INCREMENT'' ''int AUTO_INCREMENT''"
  by (simp add: DataTypeOf_eval sublist_code(3))

subsection \<open>\<^verbatim>\<open>LimitAndOffsetSQL\<close>\<close>

lemma formatInt_10: "formatInt 10 = ''10''"
  by (simp add: formatInt_def natToDec.simps)

lemma formatInt_5: "formatInt 5 = ''5''"
  by (simp add: formatInt_def natToDec.simps)

text \<open>
  Claim C4. \<^verbatim>\<open>LimitAndOffsetSQL\<close> returns the empty fragment and no error when the limit is
  absent; the parse error (with an empty fragment) when the limit is not integer-convertible,
  or when the limit parsed to a non-negative number and the offset is present and not
  integer-convertible; \<open>'' LIMIT <limit>''\<close> for a parsed limit \<open>\<ge> 0\<close>, with
  \<open>'' OFFSET <offset>''\<close> appended exactly when the offset is present and parses to a number
  \<open>\<ge> 0\<close>; and no fragment and no error for a negative limit (whatever the offset is), no
  \<open>OFFSET\<close> clause for a negative offset. In particular limit 10 with offset 5 gives
  \<open>'' LIMIT 10 OFFSET 5''\<close> and limit -1 with offset 5 gives the empty fragment.
\<close>

theorem LimitAndOffsetSQL_spec:
  "LimitAndOffsetSQL parseInt None offset = ('''', None)
   \<and> (parseInt l = Inl e \<longrightarrow> LimitAndOffsetSQL parseInt (Some l) offset = ('''', Some e))
   \<and> (parseInt l = Inr n \<and> 0 \<le> n \<and> parseInt off = Inl e \<longrightarrow>
        LimitAndOffsetSQL parseInt (Some l) (Some off) = ('''', Some e))
   \<and> (parseInt l = Inr n \<and> 0 \<le> n \<longrightarrow>
        LimitAndOffsetSQL parseInt (Some l) None = ('' LIMIT '' @ formatInt n, None))
   \<and> (parseInt l = Inr n \<and> 0 \<le> n \<and> parseInt off = Inr m \<and> 0 \<le> m \<longrightarrow>
        LimitAndOffsetSQL parseInt (Some l) (Some off) =
          ('' LIMIT '' @ formatInt n @ '' OFFSET '' @ formatInt m, None))
   \<and> (parseInt l = Inr n \<and> 0 \<le> n \<and> parseInt off = Inr m \<and> m < 0 \<longrightarrow>
        LimitAndOffsetSQL parseInt (Some l) (Some off) = ('' LIMIT '' @ formatInt n, None))
   \<and> (parseInt l = Inr n \<and> n < 0 \<longrightarrow>
        LimitAndOffsetSQL parseInt (Some l) offset = ('''', None))
   \<and> (parseInt l = Inr 10 \<and> parseInt off = Inr 5 \<longrightarrow>
        LimitAndOffsetSQL parseInt (Some l) (Some off) = ('' LIMIT 10 OFFSET 5'', None))
   \<and> (parseInt l = Inr (- 1) \<and> parseInt off = Inr 5 \<longrightarrow>
        LimitAndOffsetSQL parseInt (Some l) (Some off) = ('''', None))"
  by (simp add: LimitAndOffsetSQL_def formatInt_10 formatInt_5)

text \<open>
  An instance: a \<open>parseInt\<close> that reads the texts \<open>10\<close>, \<open>5\<close> and \<open>-1\<close> and refuses every
  other text.
\<close>

theorem LimitAndOffsetSQL_spec_witness:
  "LimitAndOffsetSQL (\<lambda>v. if v = ''10'' then Inr 10 else if v = ''5'' then Inr 5
                          else if v = ''-1'' then Inr (- 1) else Inl ''invalid syntax'')
     (Some ''10'') (Some ''5'') = ('' LIMIT 10 OFFSET 5'', None)
   \<and> LimitAndOffsetSQL (\<lambda>v. if v = ''10'' then Inr 10 else if v = ''5'' then Inr 5
                          else if v = ''-1'' then Inr (- 1) else Inl ''invalid syntax'')
     (Some ''-1'') (Some ''5'') = ('''', None)
   \<and> LimitAndOffsetSQL (\<lambda>v. if v = ''10'' then Inr 10 else if v = ''5'' then Inr 5
                          else if v = ''-1'' then Inr (- 1) else Inl ''invalid syntax'')
     (Some ''ten'') (Some ''5'') = ('''', Some ''invalid syntax'')
   \<and> LimitAndOffsetSQL (\<lambda>v. if v = ''10'' then Inr 10 else if v = ''5'' then Inr 5
                          else if v = ''-1'' then Inr (- 1) else Inl ''invalid syntax'')
     (Some ''10'') (Some ''five'') = ('''', Some ''invalid syntax'')
   \<and> LimitAndOffsetSQL (\<lambda>v. if v = ''10'' then Inr 10 else if v = ''5'' then Inr 5
                          else if v = ''-1'' then Inr (- 1) else Inl ''invalid syntax'')
     (Some ''10'') (Some ''-1'') = ('' LIMIT 10'', None)"
proof -
  let ?p = "\<lambda>v. if v = ''10'' then Inr 10 else if v = ''5'' then Inr 5
                else if v = ''-1'' then Inr (- 1) else (Inl ''invalid syntax'' :: string + int)"
  note LimitAndOffsetSQL_spec
         [where parseInt = ?p and l = "''10''" and off = "''5''" and n = 10 and m = 5]
       LimitAndOffsetSQL_spec
         [where parseInt = ?p and l = "''-1''" and off = "''5''" and n = "- 1" and m = 5]
       LimitAndOffsetSQL_spec
         [where parseInt = ?p and l = "''ten''" and offset = "Some ''5''"
            and e = "''invalid syntax''"]
       LimitAndOffsetSQL_spec
         [where parseInt = ?p and l = "''10''" and off = "''five''" and n = 10
            and e = "''invalid syntax''"]
       LimitAndOffsetSQL_spec
         [where parseInt = ?p and l = "''10''" and off = "''-1''" and n = 10 and m = "- 1"]
  then show ?thesis by (simp add: formatInt_10 formatInt_5)
qed

subsection \<open>Runes: decoding what was encoded\<close>

lemma stringToRunes_step:
  "s \<noteq> [] \<Longrightarrow>
   stringToRunes s = fst (DecodeRuneInString s) # stringToRunes (drop (snd (DecodeRuneInString s)) s)"
  by (subst stringToRunes.simps) simp

lemma stringToRunes_Nil: "stringToRunes [] = []"
  by (subst stringToRunes.simps) simp

lemma encodeRune_not_Nil: "encodeRune r \<noteq> []"
  by (simp add: encodeRune_def)

lemma width_encode1:
  "r \<le> 0x7F \<Longrightarrow> snd (DecodeRuneInString (encodeRune r @ t)) = length (encodeRune r)"
  by (simp add: DecodeRuneInString_def encodeRune_def)

lemma bounds2:
  fixes r :: nat
  assumes "\<not> r \<le> 127" "r \<le> 2047"
  shows "2 \<le> r div 64" "r div 64 \<le> 31" "r mod 64 < 64"
  using assms
  by (simp_all add: less_eq_div_iff_mult_less_eq div_less_iff_less_mult flip: less_Suc_eq_le)

lemma width_encode2:
  "\<not> r \<le> 0x7F \<Longrightarrow> r \<le> 0x7FF \<Longrightarrow>
   snd (DecodeRuneInString (encodeRune r @ t)) = length (encodeRune r)"
  using bounds2[of r]
  by (simp add: DecodeRuneInString_def encodeRune_def inRange_def Let_def)

lemma width_encodeErr:
  "snd (DecodeRuneInString
         ([char_of (0xEF :: nat), char_of (0xBF :: nat), char_of (0xBD :: nat)] @ t)) = 3"
  by (simp add: DecodeRuneInString_def inRange_def Let_def)

lemma div_bounds:
  fixes r :: nat
  shows "0 < k \<Longrightarrow> (m \<le> r div k) = (m * k \<le> r)" "0 < k \<Longrightarrow> (r div k < m) = (r < m * k)"
  by (simp_all add: less_eq_div_iff_mult_less_eq div_less_iff_less_mult)

lemma mod_64_le: "x mod 64 \<le> (63 :: nat)"
proof -
  have "x mod 64 < 64" by simp
  then show ?thesis by linarith
qed

lemma bounds3:
  fixes r :: nat
  assumes "\<not> r \<le> 2047" "r \<le> 65535" "\<not> (55296 \<le> r \<and> r \<le> 57343)"
  shows "r div 4096 \<le> 15" "(r div 64) mod 64 < 64" "r mod 64 < 64"
    "r div 4096 = 0 \<longrightarrow> 32 \<le> (r div 64) mod 64"
    "r div 4096 = 13 \<longrightarrow> (r div 64) mod 64 \<le> 31"
    "r div 4096 = 0 \<longrightarrow> r div 64 \<le> 63"
proof -
  define q where "q = r div 64"
  have a: "r div 4096 = q div 64" unfolding q_def by (simp add: div_mult2_eq[symmetric])
  have q: "q = 64 * (q div 64) + q mod 64" by simp
  have q32: "32 \<le> q" using assms(1) unfolding q_def by (simp add: div_bounds)
  have q1024: "q < 1024" using assms(2) unfolding q_def by (simp add: div_bounds)
  show "r div 4096 \<le> 15" using q1024 unfolding a
    by (simp add: div_bounds flip: less_Suc_eq_le)
  show "(r div 64) mod 64 < 64" "r mod 64 < 64" by simp_all
  show "r div 4096 = 0 \<longrightarrow> 32 \<le> (r div 64) mod 64"
    using q q32 unfolding a q_def[symmetric] by linarith
  have "q mod 64 < 64" by simp
  with q show "r div 4096 = 0 \<longrightarrow> r div 64 \<le> 63"
    unfolding a q_def[symmetric] by linarith
  show "r div 4096 = 13 \<longrightarrow> (r div 64) mod 64 \<le> 31"
  proof
    assume h: "r div 4096 = 13"
    then have "q div 64 < 14" unfolding a by simp
    then have "q < 896" by (simp add: div_bounds)
    then have "r < 57344" unfolding q_def by (simp add: div_bounds)
    with assms(3) have "r < 55296" by simp
    then have "q < 864" unfolding q_def by (simp add: div_bounds)
    with q h show "(r div 64) mod 64 \<le> 31" unfolding a q_def[symmetric] by linarith
  qed
qed

lemma width_encode3:
  "\<not> r \<le> 0x7FF \<Longrightarrow> r \<le> 0xFFFF \<Longrightarrow> \<not> (0xD800 \<le> r \<and> r \<le> 0xDFFF) \<Longrightarrow>
   snd (DecodeRuneInString (encodeRune r @ t)) = length (encodeRune r)"
  using bounds3[of r]
  by (simp add: DecodeRuneInString_def encodeRune_def inRange_def Let_def mod_64_le)

lemma bounds4:
  fixes r :: nat
  assumes "\<not> r \<le> 65535" "r \<le> 1114111"
  shows "r div 262144 \<le> 4"
    "r div 262144 = 0 \<longrightarrow> 16 \<le> (r div 4096) mod 64"
    "r div 262144 = 4 \<longrightarrow> (r div 4096) mod 64 \<le> 15"
    "r div 262144 = 0 \<longrightarrow> r div 4096 \<le> 63"
proof -
  define q where "q = r div 4096"
  have a: "r div 262144 = q div 64" unfolding q_def by (simp add: div_mult2_eq[symmetric])
  have q: "q = 64 * (q div 64) + q mod 64" by simp
  have m: "q mod 64 < 64" by simp
  have q16: "16 \<le> q" using assms(1) unfolding q_def by (simp add: div_bounds)
  have q272: "q < 272" using assms(2) unfolding q_def by (simp add: div_bounds)
  show "r div 262144 \<le> 4" using q272 unfolding a
    by (simp add: div_bounds flip: less_Suc_eq_le)
  show "r div 262144 = 0 \<longrightarrow> 16 \<le> (r div 4096) mod 64"
    using q q16 unfolding a q_def[symmetric] by linarith
  show "r div 262144 = 4 \<longrightarrow> (r div 4096) mod 64 \<le> 15"
    using q q272 unfolding a q_def[symmetric] by linarith
  show "r div 262144 = 0 \<longrightarrow> r div 4096 \<le> 63"
    using q m unfolding a q_def[symmetric] by linarith
qed

lemma width_encode4:
  "\<not> r \<le> 0xFFFF \<Longrightarrow> r \<le> 0x10FFFF \<Longrightarrow>
   snd (DecodeRuneInString (encodeRune r @ t)) = length (encodeRune r)"
  using bounds4[of r]
  by (simp add: DecodeRuneInString_def encodeRune_def inRange_def Let_def mod_64_le)

lemma width_encode:
  "snd (DecodeRuneInString (encodeRune r @ t)) = length (encodeRune r)"
proof -
  consider "r \<le> 0x7F" | "\<not> r \<le> 0x7F" "r \<le> 0x7FF"
    | "\<not> r \<le> 0x7FF" "0x10FFFF < r \<or> (0xD800 \<le> r \<and> r \<le> 0xDFFF)"
    | "\<not> r \<le> 0x7FF" "r \<le> 0xFFFF" "\<not> (0xD800 \<le> r \<and> r \<le> 0xDFFF)"
    | "\<not> r \<le> 0xFFFF" "r \<le> 0x10FFFF"
    by linarith
  then show ?thesis
  proof cases
    case 1
    then show ?thesis by (rule width_encode1)
  next
    case 2
    then show ?thesis by (rule width_encode2)
  next
    case 3
    then have "encodeRune r = [char_of (0xEF :: nat), char_of (0xBF :: nat), char_of (0xBD :: nat)]"
      by (auto simp: encodeRune_def)
    then show ?thesis using width_encodeErr[of t] by simp
  next
    case 4
    then show ?thesis by (rule width_encode3)
  next
    case 5
    then show ?thesis by (rule width_encode4)
  qed
qed

lemma stringToRunes_encode:
  "length (stringToRunes (encodeRune r @ t)) = Suc (length (stringToRunes t))"
  using stringToRunes_step[of "encodeRune r @ t"] width_encode[of r t] encodeRune_not_Nil[of r]
  by simp

lemma RuneCount_runesToString:
  "RuneCountInString (runesToString rs @ t) = length rs + RuneCountInString t"
  by (induction rs) (simp_all add: runesToString_def RuneCountInString_def stringToRunes_encode)

lemma RuneCount_ascii:
  "\<forall>c \<in> set s. (of_char c :: nat) < 128 \<Longrightarrow> RuneCountInString s = length s"
proof (induction s)
  case Nil
  then show ?case by (simp add: RuneCountInString_def stringToRunes_Nil)
next
  case (Cons c s)
  have "DecodeRuneInString (c # s) = (of_char c, 1)"
    using Cons.prems by (simp add: DecodeRuneInString_def)
  then have "stringToRunes (c # s) = of_char c # stringToRunes s"
    using stringToRunes_step[of "c # s"] by simp
  then show ?case using Cons by (simp add: RuneCountInString_def)
qed

lemma length_sha1Sum: "length (sha1Sum msg) = 20"
  by (simp add: sha1Sum_def putUint32_def Let_def split: prod.splits)

lemma length_hexString: "length (hexString bs) = 2 * length bs"
  by (induction bs) (simp_all add: hexString_def)

lemma hexdigit_ascii: "k < 16 \<Longrightarrow> (of_char (''0123456789abcdef'' ! k) :: nat) < 128"
proof -
  assume "k < 16"
  then have "''0123456789abcdef'' ! k \<in> set ''0123456789abcdef''" by (intro nth_mem) simp
  moreover have "\<forall>c \<in> set ''0123456789abcdef''. (of_char c :: nat) < 128" by simp
  ultimately show ?thesis by blast
qed

lemma hexString_ascii: "\<forall>c \<in> set (hexString bs). (of_char c :: nat) < 128"
proof (induction bs)
  case Nil
  then show ?case by (simp add: hexString_def)
next
  case (Cons b bs)
  have "(of_char b :: nat) < 256" by simp
  then have 1: "(of_char b :: nat) div 16 < 16" by (simp add: div_bounds)
  have 2: "(of_char b :: nat) mod 16 < 16" by simp
  have "hexString (b # bs) = [''0123456789abcdef'' ! (of_char b div 16),
                         ''0123456789abcdef'' ! (of_char b mod 16)] @ hexString bs"
    by (simp add: hexString_def)
  then show ?case using Cons hexdigit_ascii[OF 1] hexdigit_ascii[OF 2] by (simp del: nth_Cons_numeral)
qed

subsection \<open>\<^verbatim>\<open>BuildKeyName\<close>\<close>

lemma RuneCount_key:
  "RuneCountInString (runesToString (take 24 rs) @ hexString (sha1Sum msg)) \<le> 64"
proof -
  have "RuneCountInString (hexString (sha1Sum msg)) = 40"
    using RuneCount_ascii[OF hexString_ascii, of "sha1Sum msg"]
    by (simp add: length_hexString length_sha1Sum)
  then show ?thesis by (simp add: RuneCount_runesToString)
qed

lemma take_24_if: "(if 24 < length d then take 24 d else d) = take 24 d"
  by simp

text \<open>
  Claim C6, as the code has it. When the name that the base dialect builds has at most 64
  runes, \<^verbatim>\<open>BuildKeyName\<close> returns it unchanged, for every kind, table name and field list.
  When it has more than 64 runes and at least one field name is given, the result is the first
  24 runes of the first field name after the replacement of disallowed characters by an
  underscore, followed by the 40 hexadecimal digits of the SHA-1 digest of the full name; the
  result has at most 64 runes. The result is a function of the arguments (of the kind, the
  table name, the field names and the two helpers), so equal arguments give equal results.
\<close>

theorem BuildKeyName_spec:
  "(RuneCountInString (base kind tableName fieldNames) \<le> 64 \<longrightarrow>
      BuildKeyName base repl kind tableName fieldNames = Inr (base kind tableName fieldNames))
   \<and> (64 < RuneCountInString (base kind tableName (field0 # rest)) \<longrightarrow>
      BuildKeyName base repl kind tableName (field0 # rest)
        = Inr (runesToString (take 24 (stringToRunes (repl field0 ''_'')))
               @ hexString (sha1Sum (base kind tableName (field0 # rest))))
      \<and> length (hexString (sha1Sum (base kind tableName (field0 # rest)))) = 40
      \<and> (\<exists>s. BuildKeyName base repl kind tableName (field0 # rest) = Inr s
              \<and> RuneCountInString s \<le> 64))"
  using RuneCount_key[of "stringToRunes (repl field0 ''_'')" "base kind tableName (field0 # rest)"]
  by (simp add: BuildKeyName_def Let_def length_hexString length_sha1Sum take_24_if del: take_all_iff)

theorem BuildKeyName_spec_witness:
  "BuildKeyName (\<lambda>kind tableName fieldNames. kind @ ''_'' @ tableName @ ''_'' @ concat fieldNames)
      (\<lambda>src repl. src) ''idx'' ''users'' [''name''] = Inr ''idx_users_name''
   \<and> 64 < RuneCountInString
        ''idx_customer_subscription_payment_history_entries_archive_user_id''
   \<and> BuildKeyName (\<lambda>kind tableName fieldNames. kind @ ''_'' @ tableName @ ''_'' @ concat fieldNames)
      (\<lambda>src repl. src) ''idx'' ''customer_subscription_payment_history_entries_archive''
      [''user_id'']
     = Inr (''user_id'' @ hexString (sha1Sum
              ''idx_customer_subscription_payment_history_entries_archive_user_id''))
   \<and> length (hexString (sha1Sum
              ''idx_customer_subscription_payment_history_entries_archive_user_id'')) = 40"
  using BuildKeyName_spec
      [of "\<lambda>kind tableName fieldNames. kind @ ''_'' @ tableName @ ''_'' @ concat fieldNames"
          "''idx''" "''users''" "[''name'']" "\<lambda>src repl. src" "''user_id''" "[]"]
    BuildKeyName_spec
      [of "\<lambda>kind tableName fieldNames. kind @ ''_'' @ tableName @ ''_'' @ concat fieldNames"
          "''idx''" "''customer_subscription_payment_history_entries_archive''" "[''user_id'']"
          "\<lambda>src repl. src" "''user_id''" "[]"]
  by (simp add: RuneCountInString_def stringToRunes.simps DecodeRuneInString_def
      runesToString_def encodeRune_def char_of_eq_iff)

text \<open>
  The claim as the spec states it, for every field list, fails for the empty one: with a name
  of more than 64 runes the method does not return, it panics at \<^verbatim>\<open>fields[0]\<close>.
\<close>

theorem BuildKeyName_spec_counterexample:
  "64 < RuneCountInString
          ((\<lambda>kind tableName fieldNames. kind @ ''_'' @ tableName @ ''_'' @ concat fieldNames)
             ''idx'' ''customer_subscription_payment_history_entries_archive_by_year'' [])
   \<and> BuildKeyName (\<lambda>kind tableName fieldNames. kind @ ''_'' @ tableName @ ''_'' @ concat fieldNames)
      (\<lambda>src repl. src) ''idx'' ''customer_subscription_payment_history_entries_archive_by_year'' []
     = Inl (IndexOutOfRange 0 0)"
  by (simp add: BuildKeyName_def RuneCountInString_def stringToRunes.simps DecodeRuneInString_def)

text \<open>
  Claim C9. The shortening branch of \<^verbatim>\<open>BuildKeyName\<close> reads \<^verbatim>\<open>fields[0]\<close> without a check: for
  every call in which the base dialect's name has more than 64 runes and no field name is
  given, the method panics with an index out of range; so whenever the method returns a
  shortened name, at least one field name was given.
\<close>

theorem BuildKeyName_empty_fields:
  "(64 < RuneCountInString (base kind tableName []) \<longrightarrow>
      BuildKeyName base repl kind tableName [] = Inl (IndexOutOfRange 0 0))
   \<and> (64 < RuneCountInString (base kind tableName fieldNames)
        \<and> (\<exists>s. BuildKeyName base repl kind tableName fieldNames = Inr s) \<longrightarrow> fieldNames \<noteq> [])"
  by (auto simp: BuildKeyName_def Let_def)

theorem BuildKeyName_empty_fields_witness:
  "64 < RuneCountInString
          ((\<lambda>kind tableName fieldNames. kind @ ''_'' @ tableName @ ''_'' @ concat fieldNames)
             ''uix'' ''warehouse_inventory_adjustment_audit_records_per_location_daily'' [])
   \<and> BuildKeyName (\<lambda>kind tableName fieldNames. kind @ ''_'' @ tableName @ ''_'' @ concat fieldNames)
      (\<lambda>src repl. src) ''uix'' ''warehouse_inventory_adjustment_audit_records_per_location_daily'' []
     = Inl (IndexOutOfRange 0 0)"
  using BuildKeyName_empty_fields
      [of "\<lambda>kind tableName fieldNames. kind @ ''_'' @ tableName @ ''_'' @ concat fieldNames"
          "''uix''" "''warehouse_inventory_adjustment_audit_records_per_location_daily''"
          "\<lambda>src repl. src" "[]"]
  by (simp add: RuneCountInString_def stringToRunes.simps DecodeRuneInString_def)

subsection \<open>\<^verbatim>\<open>NormalizeIndexAndColumn\<close>\<close>

lemma isDigit_paren: "\<not> isDigit CHR ''(''"
  by (simp add: isDigit_def)

lemma FindStringSubmatch_match:
  assumes "indexPattern s name digits"
  shows "FindStringSubmatch s = [s, name, digits]"
proof -
  from assms have s: "s = name @ ''('' @ digits @ '')''" and n: "name \<noteq> []" "CHR 0x0A \<notin> set name"
    and d: "digits \<noteq> []" "list_all isDigit digits"
    by (simp_all add: indexPattern_def)
  have r: "rev s = CHR '')'' # (rev digits @ CHR ''('' # rev name)" by (simp add: s)
  have dd: "\<forall>x \<in> set (rev digits). isDigit x" using d(2) by (simp add: list_all_iff)
  have "takeWhile isDigit (rev digits @ CHR ''('' # rev name)
          = rev digits @ takeWhile isDigit (CHR ''('' # rev name)"
    by (rule takeWhile_append2) (simp add: dd)
  then have t: "takeWhile isDigit (rev digits @ CHR ''('' # rev name) = rev digits"
    using isDigit_paren by simp
  have "dropWhile isDigit (rev digits @ CHR ''('' # rev name)
          = dropWhile isDigit (CHR ''('' # rev name)"
    by (rule dropWhile_append2) (simp add: dd)
  then have dr: "dropWhile isDigit (rev digits @ CHR ''('' # rev name) = CHR ''('' # rev name"
    using isDigit_paren by simp
  show ?thesis
    unfolding FindStringSubmatch_def r using n d(1) by (simp add: t dr Let_def)
qed

lemma FindStringSubmatch_result:
  assumes "FindStringSubmatch s \<noteq> []"
  shows "\<exists>name digits. indexPattern s name digits \<and> FindStringSubmatch s = [s, name, digits]"
proof -
  from assms obtain r where r: "rev s = CHR '')'' # r"
    by (auto simp: FindStringSubmatch_def split: list.splits if_splits)
  from assms r obtain r' where dw: "dropWhile isDigit r = CHR ''('' # r'"
    and ne: "takeWhile isDigit r \<noteq> []" "r' \<noteq> []" "CHR 0x0A \<notin> set r'"
    by (auto simp: FindStringSubmatch_def Let_def split: list.splits if_splits)
  have "r = takeWhile isDigit r @ dropWhile isDigit r" by simp
  then have "rev s = CHR '')'' # takeWhile isDigit r @ CHR ''('' # r'" using r dw by simp
  then have "rev (rev s) = rev (CHR '')'' # takeWhile isDigit r @ CHR ''('' # r')" by simp
  then have s: "s = rev r' @ ''('' @ rev (takeWhile isDigit r) @ '')''" by simp
  have "list_all isDigit (rev (takeWhile isDigit r))"
    by (simp add: list_all_iff) (meson set_takeWhileD)
  with s ne have "indexPattern s (rev r') (rev (takeWhile isDigit r))"
    by (simp add: indexPattern_def)
  then show ?thesis using FindStringSubmatch_match by blast
qed

text \<open>
  Claim C7. If the index name matches the pattern \<open><name>(<digits>)\<close> of \<^verbatim>\<open>dmsqlIndexRegex\<close>,
  \<^verbatim>\<open>NormalizeIndexAndColumn\<close> returns the bare name as the index name and
  \<open><column>(<digits>)\<close> as the column; otherwise it returns both inputs unchanged. The two groups
  of a matching index name are unique. \<open>(''idx_name(10)'', ''col'')\<close> maps to
  \<open>(''idx_name'', ''col(10)'')\<close> and \<open>(''idx_name'', ''col'')\<close> is unchanged.
\<close>

theorem NormalizeIndexAndColumn_spec:
  "(indexPattern indexName name digits \<longrightarrow>
      NormalizeIndexAndColumn indexName columnName = (name, columnName @ ''('' @ digits @ '')''))
   \<and> ((\<forall>name digits. \<not> indexPattern indexName name digits) \<longrightarrow>
      NormalizeIndexAndColumn indexName columnName = (indexName, columnName))
   \<and> (indexPattern indexName name digits \<and> indexPattern indexName name' digits' \<longrightarrow>
      name' = name \<and> digits' = digits)
   \<and> NormalizeIndexAndColumn ''idx_name(10)'' ''col'' = (''idx_name'', ''col(10)'')
   \<and> NormalizeIndexAndColumn ''idx_name'' ''col'' = (''idx_name'', ''col'')"
proof (intro conjI impI)
  assume "indexPattern indexName name digits \<and> indexPattern indexName name' digits'"
  then have "[indexName, name, digits] = [indexName, name', digits']"
    using FindStringSubmatch_match[of indexName name digits]
      FindStringSubmatch_match[of indexName name' digits'] by simp
  then show "name' = name" "digits' = digits" by simp_all
next
  assume "indexPattern indexName name digits"
  then show "NormalizeIndexAndColumn indexName columnName = (name, columnName @ ''('' @ digits @ '')'')"
    by (simp add: NormalizeIndexAndColumn_def FindStringSubmatch_match)
next
  assume "\<forall>name digits. \<not> indexPattern indexName name digits"
  then have "FindStringSubmatch indexName = []" using FindStringSubmatch_result by blast
  then show "NormalizeIndexAndColumn indexName columnName = (indexName, columnName)"
    by (simp add: NormalizeIndexAndColumn_def)
next
  show "NormalizeIndexAndColumn ''idx_name(10)'' ''col'' = (''idx_name'', ''col(10)'')"
    by (simp add: NormalizeIndexAndColumn_def FindStringSubmatch_def isDigit_def)
next
  show "NormalizeIndexAndColumn ''idx_name'' ''col'' = (''idx_name'', ''col'')"
    by (simp add: NormalizeIndexAndColumn_def FindStringSubmatch_def isDigit_def)
qed

theorem NormalizeIndexAndColumn_spec_witness:
  "indexPattern ''idx_users_email(191)'' ''idx_users_email'' ''191''
   \<and> NormalizeIndexAndColumn ''idx_users_email(191)'' ''email'' = (''idx_users_email'', ''email(191)'')
   \<and> (\<forall>name digits. \<not> indexPattern ''idx(x)'' name digits)
   \<and> NormalizeIndexAndColumn ''idx(x)'' ''email'' = (''idx(x)'', ''email'')"
proof -
  have p: "indexPattern ''idx_users_email(191)'' ''idx_users_email'' ''191''"
    by (simp add: indexPattern_def isDigit_def)
  have "FindStringSubmatch ''idx(x)'' = []"
    by (simp add: FindStringSubmatch_def isDigit_def)
  then have n: "\<forall>name digits. \<not> indexPattern ''idx(x)'' name digits"
    using FindStringSubmatch_match by fastforce
  show ?thesis
    using p n
      NormalizeIndexAndColumn_spec[of "''idx_users_email(191)''" "''idx_users_email''" "''191''" "''email''" "''idx_users_email''" "''191''"]
      NormalizeIndexAndColumn_spec[of "''idx(x)''" "''idx''" "''x''" "''email''" "''idx''" "''x''"]
    by simp
qed

subsection \<open>The existence checks\<close>

text \<open>
  Claim C8. Each of \<^verbatim>\<open>HasForeignKey\<close>, \<^verbatim>\<open>HasTable\<close>, \<^verbatim>\<open>HasIndex\<close> and \<^verbatim>\<open>HasColumn\<close> returns
  true if and only if its catalog query yields a count that is strictly positive; when the
  query or the scan fails, the error is dropped, the count keeps its zero value and the method
  returns false. \<open>space\<close> and \<open>table\<close> are what the library's \<^verbatim>\<open>currentDatabaseAndTable\<close>
  resolves the table name to.
\<close>

theorem Has_spec:
  "currentDatabaseAndTable CurrentDatabase tableName = (space, table) \<longrightarrow>
     HasForeignKey currentDatabaseAndTable QueryRow tableName foreignKeyName
       = (case QueryRow (''SELECT count(*) FROM USER_CONSTRAINTS WHERE TABLE_NAME=? AND ''
                         @ ''CONSTRAINT_NAME=? AND CONSTRAINT_TYPE='' @ [CHR 0x27] @ ''R''
                         @ [CHR 0x27]) [table, foreignKeyName]
          of Inl err \<Rightarrow> False | Inr count \<Rightarrow> 0 < count)
   \<and> HasTable currentDatabaseAndTable QueryRow tableName
       = (case QueryRow (''SELECT count(*) FROM USER_TABLES WHERE TABLESPACE = `'' @ space
                         @ ''` AND TABLE_NAME = `'' @ table @ ''` '') []
          of Inl err \<Rightarrow> False | Inr count \<Rightarrow> 0 < count)
   \<and> HasIndex currentDatabaseAndTable QueryRow tableName indexName
       = (case QueryRow (''SELECT count(*) FROM USER_INDEXS WHERE TABLESPACE = `'' @ space
                         @ ''` AND TABLE_NAME = `'' @ table @ ''` AND INDEX_NAME = `''
                         @ indexName @ ''` '') []
          of Inl err \<Rightarrow> False | Inr count \<Rightarrow> 0 < count)
   \<and> HasColumn currentDatabaseAndTable QueryRow tableName columnName
       = (case QueryRow (''SELECT count(*) FROM USER_TAB_COLUMNS WHERE TABLE_NAME = `'' @ table
                         @ ''` AND COLUMN_NAME =`'' @ columnName @ ''` '') []
          of Inl err \<Rightarrow> False | Inr count \<Rightarrow> 0 < count)"
  by (simp add: HasForeignKey_def HasTable_def HasIndex_def HasColumn_def Scan_def Let_def
      split: sum.splits)

theorem Has_spec_witness:
  "HasTable (\<lambda>db t. (db, t))
     (\<lambda>q args. if q = ''SELECT count(*) FROM USER_TABLES WHERE TABLESPACE = `blockchain` AND TABLE_NAME = `users` ''
                then Inr 1
                else if q = ''SELECT count(*) FROM USER_TAB_COLUMNS WHERE TABLE_NAME = `users` AND COLUMN_NAME =`age` ''
                then Inr 0 else Inl ''invalid table or view name'')
     ''users''
   \<and> \<not> HasColumn (\<lambda>db t. (db, t))
     (\<lambda>q args. if q = ''SELECT count(*) FROM USER_TABLES WHERE TABLESPACE = `blockchain` AND TABLE_NAME = `users` ''
                then Inr 1
                else if q = ''SELECT count(*) FROM USER_TAB_COLUMNS WHERE TABLE_NAME = `users` AND COLUMN_NAME =`age` ''
                then Inr 0 else Inl ''invalid table or view name'')
     ''users'' ''age''
   \<and> \<not> HasIndex (\<lambda>db t. (db, t))
     (\<lambda>q args. if q = ''SELECT count(*) FROM USER_TABLES WHERE TABLESPACE = `blockchain` AND TABLE_NAME = `users` ''
                then Inr 1
                else if q = ''SELECT count(*) FROM USER_TAB_COLUMNS WHERE TABLE_NAME = `users` AND COLUMN_NAME =`age` ''
                then Inr 0 else Inl ''invalid table or view name'')
     ''users'' ''idx_users_age''
   \<and> \<not> HasForeignKey (\<lambda>db t. (db, t))
     (\<lambda>q args. if q = ''SELECT count(*) FROM USER_TABLES WHERE TABLESPACE = `blockchain` AND TABLE_NAME = `users` ''
                then Inr 1
                else if q = ''SELECT count(*) FROM USER_TAB_COLUMNS WHERE TABLE_NAME = `users` AND COLUMN_NAME =`age` ''
                then Inr 0 else Inl ''invalid table or view name'')
     ''users'' ''fk_users_team''"
  using Has_spec
    [of "\<lambda>db t. (db, t)" "''users''" "''blockchain''" "''users''"
        "\<lambda>q args. if q = ''SELECT count(*) FROM USER_TABLES WHERE TABLESPACE = `blockchain` AND TABLE_NAME = `users` ''
                then Inr 1
                else if q = ''SELECT count(*) FROM USER_TAB_COLUMNS WHERE TABLE_NAME = `users` AND COLUMN_NAME =`age` ''
                then Inr 0 else Inl ''invalid table or view name''"
        "''fk_users_team''" "''idx_users_age''" "''age''"]
  by (simp add: CurrentDatabase_def)

end
